theory Spec2Isabelle
  imports Complex_Main
begin

section \<open>Python values, exceptions and built-ins used by the code\<close>

text \<open>
  Values decoded from JSON by \<^verbatim>\<open>response.json()\<close> and \<^verbatim>\<open>json.loads\<close>: \<^verbatim>\<open>None\<close>, \<^verbatim>\<open>bool\<close>,
  \<^verbatim>\<open>int\<close> (unbounded), \<^verbatim>\<open>float\<close> (a finite value, an infinity or NaN), \<^verbatim>\<open>str\<close>, \<^verbatim>\<open>list\<close> and
  \<^verbatim>\<open>dict\<close> (an association list in insertion order, looked up by its first match).
  Strings are lists of 8-bit characters; the code only inspects ASCII.
\<close>

datatype pyfloat = Finite rat | PosInf | NegInf | NaN

datatype json =
    JNull
  | JBool bool
  | JInt int
  | JFloat pyfloat
  | JString string
  | JArray "json list"
  | JObject "(string \<times> json) list"

text \<open>Exceptions are a class and the text of \<^verbatim>\<open>str(exc)\<close>.\<close>

datatype exc_class =
    ValueError | TypeError | AttributeError | OverflowError
  | HaloAuthError | HaloAPIError
  | RequestException | HTTPError
  | KeyboardInterrupt | SystemExit
  | OtherException string

datatype pyexc = PyExc (exc_class: exc_class) (exc_msg: string)

text \<open>\<^verbatim>\<open>except Exception\<close> catches every class but the two that derive from
  \<^verbatim>\<open>BaseException\<close> only.\<close>

fun is_Exception :: "exc_class \<Rightarrow> bool" where
  "is_Exception KeyboardInterrupt = False"
| "is_Exception SystemExit = False"
| "is_Exception _ = True"

text \<open>\<^verbatim>\<open>except requests.RequestException\<close>: \<^verbatim>\<open>HTTPError\<close> is a subclass.\<close>

fun is_RequestException :: "exc_class \<Rightarrow> bool" where
  "is_RequestException RequestException = True"
| "is_RequestException HTTPError = True"
| "is_RequestException _ = False"

text \<open>Truth value of a Python object, as \<^verbatim>\<open>not x\<close> and \<^verbatim>\<open>if x\<close> test it.\<close>

fun truthy :: "json \<Rightarrow> bool" where
  "truthy JNull = False"
| "truthy (JBool b) = b"
| "truthy (JInt i) = (i \<noteq> 0)"
| "truthy (JFloat f) = (f \<noteq> Finite 0)"
| "truthy (JString s) = (s \<noteq> [])"
| "truthy (JArray xs) = (xs \<noteq> [])"
| "truthy (JObject kvs) = (kvs \<noteq> [])"

text \<open>\<^verbatim>\<open>type(x).__name__\<close>, for the text of an \<^verbatim>\<open>AttributeError\<close>.\<close>

fun type_name :: "json \<Rightarrow> string" where
  "type_name JNull = ''NoneType''"
| "type_name (JBool _) = ''bool''"
| "type_name (JInt _) = ''int''"
| "type_name (JFloat _) = ''float''"
| "type_name (JString _) = ''str''"
| "type_name (JArray _) = ''list''"
| "type_name (JObject _) = ''dict''"

text \<open>\<^verbatim>\<open>d.get(key)\<close> on a dict: \<^verbatim>\<open>None\<close> when the key is absent.\<close>

definition dict_get :: "(string \<times> json) list \<Rightarrow> string \<Rightarrow> json" where
  "dict_get kvs k = (case map_of kvs k of None \<Rightarrow> JNull | Some v \<Rightarrow> v)"

text \<open>\<^verbatim>\<open>data.get(key)\<close> on any decoded value: only a dict has the method.\<close>

fun py_get :: "json \<Rightarrow> string \<Rightarrow> pyexc + json" where
  "py_get (JObject kvs) k = Inr (dict_get kvs k)"
| "py_get v k =
     Inl (PyExc AttributeError
       ([CHR 0x27] @ type_name v @ [CHR 0x27] @ '' object has no attribute '' @
        [CHR 0x27] @ ''get'' @ [CHR 0x27]))"

text \<open>\<^verbatim>\<open>str.strip()\<close>, \<^verbatim>\<open>str.lstrip('/')\<close>, \<^verbatim>\<open>str.upper()\<close> and \<^verbatim>\<open>sub in s\<close> on ASCII text.\<close>

definition py_isspace :: "char \<Rightarrow> bool" where
  "py_isspace c =
     (let n = (of_char c :: nat) in (9 \<le> n \<and> n \<le> 13) \<or> (28 \<le> n \<and> n \<le> 32))"

definition py_strip :: "string \<Rightarrow> string" where
  "py_strip s = rev (dropWhile py_isspace (rev (dropWhile py_isspace s)))"

definition lstrip_slash :: "string \<Rightarrow> string" where
  "lstrip_slash s = dropWhile (\<lambda>c. c = CHR ''/'') s"

definition upper_char :: "char \<Rightarrow> char" where
  "upper_char c =
     (case map_of (zip ''abcdefghijklmnopqrstuvwxyz'' ''ABCDEFGHIJKLMNOPQRSTUVWXYZ'') c of
        Some u \<Rightarrow> u
      | None \<Rightarrow> c)"

definition py_upper :: "string \<Rightarrow> string" where
  "py_upper s = map upper_char s"

fun py_in :: "string \<Rightarrow> string \<Rightarrow> bool" where
  "py_in sub [] = (sub = [])"
| "py_in sub (c # cs) = (take (length sub) (c # cs) = sub \<or> py_in sub cs)"

text \<open>\<^verbatim>\<open>str(n)\<close> for an integer.\<close>

definition digit_char :: "nat \<Rightarrow> char" where
  "digit_char d = ''0123456789'' ! d"

fun str_of_nat :: "nat \<Rightarrow> string" where
  "str_of_nat n =
     (if n < 10 then [digit_char n]
      else str_of_nat (n div 10) @ [digit_char (n mod 10)])"

declare str_of_nat.simps [simp del]

definition str_of_int :: "int \<Rightarrow> string" where
  "str_of_int i = (if i < 0 then CHR ''-'' # str_of_nat (nat (- i)) else str_of_nat (nat i))"

text \<open>
  \<^verbatim>\<open>int(x)\<close>. On a string: surrounding whitespace is dropped, one sign is allowed, and the
  rest is decimal digits with single underscores between digits. On a float: truncation
  towards zero; an infinity raises \<^verbatim>\<open>OverflowError\<close>, NaN raises \<^verbatim>\<open>ValueError\<close>.
  \<^verbatim>\<open>None\<close>, lists and dicts raise \<^verbatim>\<open>TypeError\<close>.
\<close>

definition is_digit :: "char \<Rightarrow> bool" where
  "is_digit c = (let n = (of_char c :: nat) in 48 \<le> n \<and> n \<le> 57)"

fun digits_value :: "int \<Rightarrow> bool \<Rightarrow> string \<Rightarrow> int option" where
  "digits_value acc after_digit [] = (if after_digit then Some acc else None)"
| "digits_value acc after_digit (c # cs) =
     (if is_digit c then digits_value (acc * 10 + (of_char c - 48)) True cs
      else if c = CHR ''_'' \<and> after_digit then digits_value acc False cs
      else None)"

definition int_of_str :: "string \<Rightarrow> int option" where
  "int_of_str s =
     (case py_strip s of
        [] \<Rightarrow> None
      | c # cs \<Rightarrow>
          if c = CHR ''-'' then map_option uminus (digits_value 0 False cs)
          else if c = CHR ''+'' then digits_value 0 False cs
          else digits_value 0 False (c # cs))"

definition trunc_rat :: "rat \<Rightarrow> int" where
  "trunc_rat q = (if 0 \<le> q then \<lfloor>q\<rfloor> else \<lceil>q\<rceil>)"

fun py_int :: "json \<Rightarrow> pyexc + int" where
  "py_int JNull =
     Inl (PyExc TypeError ''int() argument must be a string, a bytes-like object or a real number'')"
| "py_int (JBool b) = Inr (if b then 1 else 0)"
| "py_int (JInt i) = Inr i"
| "py_int (JFloat (Finite q)) = Inr (trunc_rat q)"
| "py_int (JFloat NaN) = Inl (PyExc ValueError ''cannot convert float NaN to integer'')"
| "py_int (JFloat _) = Inl (PyExc OverflowError ''cannot convert float infinity to integer'')"
| "py_int (JString s) =
     (case int_of_str s of
        None \<Rightarrow> Inl (PyExc ValueError ''invalid literal for int() with base 10'')
      | Some i \<Rightarrow> Inr i)"
| "py_int _ =
     Inl (PyExc TypeError ''int() argument must be a string, a bytes-like object or a real number'')"

section \<open>Time\<close>

text \<open>
  A \<^verbatim>\<open>datetime\<close> is its number of microseconds since 0001-01-01T00:00:00. The type holds
  instants up to the end of year 9999; \<^verbatim>\<open>timedelta(seconds=n)\<close> holds at most 999999999 days.
  Both raise \<^verbatim>\<open>OverflowError\<close> outside their range.
\<close>

type_synonym datetime = int

definition us_per_day :: int where
  "us_per_day = 86400000000"

definition datetime_end :: int where
  "datetime_end = 3652059 * us_per_day"

definition timedelta_seconds :: "int \<Rightarrow> pyexc + int" where
  "timedelta_seconds n =
     (if - 999999999 \<le> n div 86400 \<and> n div 86400 \<le> 999999999 then Inr (n * 1000000)
      else Inl (PyExc OverflowError
             (''days='' @ str_of_int (n div 86400) @ ''; must have magnitude <= 999999999'')))"

definition datetime_add :: "datetime \<Rightarrow> int \<Rightarrow> pyexc + datetime" where
  "datetime_add t d =
     (if 0 \<le> t + d \<and> t + d < datetime_end then Inr (t + d)
      else Inl (PyExc OverflowError ''date value out of range''))"

section \<open>connector/halo\_client.py\<close>

subsection \<open>Configuration, HTTP and logging\<close>

record client_config =
  base_url :: string
  token_url :: string
  client_id :: string
  client_secret :: string
  scope :: string
  audience :: string
  timeout :: int
  token_refresh_buffer :: int

record TokenData =
  access_token :: string
  expires_at :: datetime

text \<open>
  A response as the code reads it: the status, the \<^verbatim>\<open>Content-Type\<close> header if any, the body
  text, and what \<^verbatim>\<open>response.json()\<close> returns (\<open>None\<close> when it raises \<^verbatim>\<open>ValueError\<close>).
  The outcome of a call on the session is the one left after the adapter's own retries:
  a transport failure (no response) or a response.
\<close>

record http_response =
  status_code :: int
  content_type :: "string option"
  body_text :: string
  body_json :: "json option"

datatype http_outcome = TransportFailure string | Received http_response

record http_request =
  req_method :: string
  req_url :: string
  req_form :: "(string \<times> string) list"
  req_params :: "json option"
  req_json :: "json option"
  req_headers :: "(string \<times> string) list"
  req_timeout :: int

datatype log_level = DEBUG | INFO | WARNING | ERROR

datatype log_arg = ArgStr string | ArgInt int | ArgVal json | ArgExc pyexc | ArgTime datetime

record log_record =
  level :: log_level
  msg :: string
  args :: "log_arg list"

text \<open>
  The world of a client: the clock (\<open>utcnow_at w n\<close> is what the \<open>n\<close>-th call of
  \<^verbatim>\<open>datetime.utcnow()\<close> returns), the network (\<open>reply_to w n\<close> is the outcome of the \<open>n\<close>-th call
  on the session), the requests sent and the records logged so far, and \<^verbatim>\<open>self._token\<close>.
\<close>

record world =
  utcnow_at :: "nat \<Rightarrow> datetime"
  clock_reads :: nat
  reply_to :: "nat \<Rightarrow> http_outcome"
  sent :: "http_request list"
  log_records :: "log_record list"
  cached_token :: "TokenData option"

definition utcnow :: "world \<Rightarrow> datetime \<times> world" where
  "utcnow w = (utcnow_at w (clock_reads w), w\<lparr>clock_reads := Suc (clock_reads w)\<rparr>)"

definition session_send :: "http_request \<Rightarrow> world \<Rightarrow> http_outcome \<times> world" where
  "session_send rq w = (reply_to w (length (sent w)), w\<lparr>sent := sent w @ [rq]\<rparr>)"

definition emit :: "log_level \<Rightarrow> string \<Rightarrow> log_arg list \<Rightarrow> world \<Rightarrow> world" where
  "emit lv m as w = w\<lparr>log_records := log_records w @ [\<lparr>level = lv, msg = m, args = as\<rparr>]\<rparr>"

text \<open>\<^verbatim>\<open>response.raise_for_status()\<close>: an \<^verbatim>\<open>HTTPError\<close> for a 4xx or 5xx status.\<close>

definition raise_for_status :: "http_response \<Rightarrow> pyexc option" where
  "raise_for_status r =
     (if 400 \<le> status_code r \<and> status_code r < 600
      then Some (PyExc HTTPError (str_of_int (status_code r) @ '' Error''))
      else None)"

subsection \<open>TokenData.is\_valid and HaloBaseClient.\_get\_access\_token\<close>

text \<open>The comparison \<^verbatim>\<open>now + timedelta(seconds=buffer_seconds) < self.expires_at\<close> at a
  given reading \<open>now\<close> of the clock.\<close>

definition valid_at :: "TokenData \<Rightarrow> int \<Rightarrow> datetime \<Rightarrow> pyexc + bool" where
  "valid_at tok buffer_seconds now =
     (case timedelta_seconds buffer_seconds of
        Inl e \<Rightarrow> Inl e
      | Inr d \<Rightarrow>
          (case datetime_add now d of
             Inl e \<Rightarrow> Inl e
           | Inr t \<Rightarrow> Inr (t < expires_at tok)))"

definition is_valid :: "TokenData \<Rightarrow> int \<Rightarrow> world \<Rightarrow> (pyexc + bool) \<times> world" where
  "is_valid tok buffer_seconds w =
     (let (now, w1) = utcnow w in (valid_at tok buffer_seconds now, w1))"

text \<open>
  Lines 124-126 and again 129-131:
  \<^verbatim>\<open>token = self._token; if token and token.is_valid(self.token_refresh_buffer): return token.access_token\<close>.
  The result is \<open>Some\<close> of the token to return, or \<open>None\<close> to go on.
\<close>

definition cached_if_valid :: "client_config \<Rightarrow> world \<Rightarrow> (pyexc + string option) \<times> world" where
  "cached_if_valid cfg w =
     (case cached_token w of
        None \<Rightarrow> (Inr None, w)
      | Some tok \<Rightarrow>
          (case is_valid tok (token_refresh_buffer cfg) w of
             (Inl e, w1) \<Rightarrow> (Inl e, w1)
           | (Inr True, w1) \<Rightarrow> (Inr (Some (access_token tok)), w1)
           | (Inr False, w1) \<Rightarrow> (Inr None, w1)))"

definition token_request :: "client_config \<Rightarrow> http_request" where
  "token_request cfg =
     \<lparr>req_method = ''POST'',
      req_url = token_url cfg,
      req_form =
        [(''grant_type'', ''client_credentials''),
         (''client_id'', client_id cfg),
         (''client_secret'', client_secret cfg)]
        @ (if scope cfg \<noteq> [] then [(''scope'', scope cfg)] else [])
        @ (if audience cfg \<noteq> [] then [(''audience'', audience cfg)] else []),
      req_params = None,
      req_json = None,
      req_headers = [],
      req_timeout = timeout cfg\<rparr>"

text \<open>
  Lines 155-174: the decoded token response is read and the token cached. The test
  \<^verbatim>\<open>not access_token or not isinstance(access_token, str)\<close> lets exactly a non-empty string
  through.
\<close>

definition store_token :: "json \<Rightarrow> world \<Rightarrow> (pyexc + string) \<times> world" where
  "store_token data w =
     (case py_get data ''access_token'' of
        Inl e \<Rightarrow> (Inl e, w)
      | Inr tok_field \<Rightarrow>
     (case py_get data ''expires_in'' of
        Inl e \<Rightarrow> (Inl e, w)
      | Inr expires_field \<Rightarrow>
     (case tok_field of
        JString s \<Rightarrow>
          if s = [] then
            (Inl (PyExc HaloAuthError ''Token response missing access_token''),
             emit ERROR ''Token response did not include access_token: %s'' [ArgVal data] w)
          else
            (let w1 = (if \<not> truthy expires_field
                       then emit WARNING
                              ''Token response missing expires_in; defaulting to 5 minutes'' [] w
                       else w);
                 expires_in = (if \<not> truthy expires_field then JInt 300 else expires_field)
             in case py_int expires_in of
                  Inl e \<Rightarrow>
                    if exc_class e = TypeError \<or> exc_class e = ValueError then
                      (Inl (PyExc HaloAuthError ''Invalid expires_in value in token response''),
                       emit ERROR ''Invalid expires_in value in token response: %s''
                         [ArgVal expires_in] w1)
                    else (Inl e, w1)
                | Inr expires_in_int \<Rightarrow>
                    (let (now, w2) = utcnow w1 in
                     case timedelta_seconds expires_in_int of
                       Inl e \<Rightarrow> (Inl e, w2)
                     | Inr d \<Rightarrow>
                         (case datetime_add now d of
                            Inl e \<Rightarrow> (Inl e, w2)
                          | Inr t \<Rightarrow>
                              (Inr s,
                               emit INFO ''Halo Connect token refreshed; expires at %s'' [ArgTime t]
                                 (w2\<lparr>cached_token := Some \<lparr>access_token = s, expires_at = t\<rparr>\<rparr>)))))
      | _ \<Rightarrow>
          (Inl (PyExc HaloAuthError ''Token response missing access_token''),
           emit ERROR ''Token response did not include access_token: %s'' [ArgVal data] w))))"

text \<open>Lines 133-153: the request to the token endpoint and the decoding of its response.\<close>

definition fetch_token :: "client_config \<Rightarrow> world \<Rightarrow> (pyexc + string) \<times> world" where
  "fetch_token cfg w =
     (let w1 = emit DEBUG ''Refreshing Halo Connect OAuth2 token'' [] w;
          (out, w2) = session_send (token_request cfg) w1
      in case out of
           TransportFailure m \<Rightarrow>
             (Inl (PyExc HaloAuthError ''Failed to obtain Halo Connect token''),
              emit ERROR ''Failed to obtain Halo Connect token: %s''
                [ArgExc (PyExc RequestException m)] w2)
         | Received r \<Rightarrow>
             (case raise_for_status r of
                Some e \<Rightarrow>
                  (Inl (PyExc HaloAuthError ''Failed to obtain Halo Connect token''),
                   emit ERROR ''Failed to obtain Halo Connect token: %s'' [ArgExc e] w2)
              | None \<Rightarrow>
                  (case body_json r of
                     None \<Rightarrow>
                       (Inl (PyExc HaloAuthError ''Invalid token response from Halo Connect''),
                        emit ERROR ''Invalid token response received from Halo Connect: %s''
                          [ArgExc (PyExc ValueError ''invalid JSON'')] w2)
                   | Some data \<Rightarrow> store_token data w2)))"

definition get_access_token :: "client_config \<Rightarrow> world \<Rightarrow> (pyexc + string) \<times> world" where
  "get_access_token cfg w =
     (case cached_if_valid cfg w of
        (Inl e, w1) \<Rightarrow> (Inl e, w1)
      | (Inr (Some s), w1) \<Rightarrow> (Inr s, w1)
      | (Inr None, w1) \<Rightarrow>
          (case cached_if_valid cfg w1 of
             (Inl e, w2) \<Rightarrow> (Inl e, w2)
           | (Inr (Some s), w2) \<Rightarrow> (Inr s, w2)
           | (Inr None, w2) \<Rightarrow> fetch_token cfg w2))"

subsection \<open>HaloBaseClient.\_log\_error\_response and HaloBaseClient.\_request\<close>

text \<open>\<^verbatim>\<open>response.headers.get("Content-Type", "")\<close>.\<close>

definition content_type_or_empty :: "http_response \<Rightarrow> string" where
  "content_type_or_empty r = (case content_type r of None \<Rightarrow> [] | Some c \<Rightarrow> c)"

definition log_error_response :: "http_response \<Rightarrow> world \<Rightarrow> world" where
  "log_error_response r w =
     (let ct = content_type_or_empty r;
          excerpt = emit ERROR ''Halo Connect error response: status=%s body=%s''
                      [ArgInt (status_code r), ArgStr (take 2048 (body_text r))] w
      in if py_in ''json'' ct then
           (case body_json r of
              Some parsed \<Rightarrow>
                emit ERROR ''Halo Connect error response: status=%s body=%s''
                  [ArgInt (status_code r), ArgVal parsed] w
            | None \<Rightarrow> excerpt)
         else excerpt)"

text \<open>\<^verbatim>\<open>request_headers.update(headers)\<close>: a key already there keeps its place and takes the
  new value, a new key goes to the end.\<close>

fun dict_update :: "(string \<times> string) list \<Rightarrow> (string \<times> string) list \<Rightarrow> (string \<times> string) list" where
  "dict_update d [] = d"
| "dict_update d ((k, v) # kvs) =
     dict_update
       (if k \<in> fst ` set d then map (\<lambda>(k', v'). if k' = k then (k', v) else (k', v')) d
        else d @ [(k, v)]) kvs"

text \<open>
  \<open>base_url cfg\<close> is \<^verbatim>\<open>self.base_url\<close>, which the constructor has stripped of trailing slashes;
  \<open>expected_status\<close> is the tuple the code normalises a single integer to.
\<close>

definition request ::
  "client_config \<Rightarrow> string \<Rightarrow> string \<Rightarrow> json option \<Rightarrow> json option \<Rightarrow>
   (string \<times> string) list option \<Rightarrow> int list \<Rightarrow> world \<Rightarrow> (pyexc + http_response) \<times> world" where
  "request cfg method path params json_payload headers expected_status w =
     (if path = [] then (Inl (PyExc ValueError ''path must be provided''), w)
      else
        case get_access_token cfg w of
          (Inl e, w1) \<Rightarrow> (Inl e, w1)
        | (Inr tok, w1) \<Rightarrow>
            (let url = base_url cfg @ ''/'' @ lstrip_slash path;
                 request_headers =
                   dict_update
                     [(''Authorization'', ''Bearer '' @ tok), (''Accept'', ''application/json'')]
                     (case headers of None \<Rightarrow> [] | Some h \<Rightarrow> h);
                 (out, w2) =
                   session_send
                     \<lparr>req_method = py_upper method, req_url = url, req_form = [],
                      req_params = params, req_json = json_payload,
                      req_headers = request_headers, req_timeout = timeout cfg\<rparr> w1
             in case out of
                  TransportFailure m \<Rightarrow>
                    (Inl (PyExc HaloAPIError ''Failed to execute request to Halo Connect''),
                     emit ERROR ''Request to Halo Connect failed: %s''
                       [ArgExc (PyExc RequestException m)] w2)
                | Received r \<Rightarrow>
                    if status_code r \<notin> set expected_status then
                      (Inl (PyExc HaloAPIError
                              (''Halo Connect responded with unexpected status '' @
                               str_of_int (status_code r) @ '': '' @ body_text r)),
                       log_error_response r w2)
                    else (Inr r, w2)))"

subsection \<open>Notions used to state the properties of the client\<close>

text \<open>
  The cached token is absent, or \<^verbatim>\<open>is_valid\<close> answers \<^verbatim>\<open>False\<close> at both readings of the clock that
  \<open>get_access_token\<close> takes (before and after acquiring the lock).
\<close>

definition stale :: "client_config \<Rightarrow> world \<Rightarrow> bool" where
  "stale cfg w =
     (case cached_token w of
        None \<Rightarrow> True
      | Some tok \<Rightarrow>
          valid_at tok (token_refresh_buffer cfg) (utcnow_at w (clock_reads w)) = Inr False \<and>
          valid_at tok (token_refresh_buffer cfg) (utcnow_at w (Suc (clock_reads w))) = Inr False)"

text \<open>The index of the clock reading that a refresh uses for \<^verbatim>\<open>expires_at\<close>: an absent token
  costs no reading, a stale one the two of its validity checks.\<close>

definition refresh_reading :: "world \<Rightarrow> nat" where
  "refresh_reading w =
     (case cached_token w of None \<Rightarrow> clock_reads w | Some _ \<Rightarrow> clock_reads w + 2)"

definition after_checks :: "world \<Rightarrow> world" where
  "after_checks w = w\<lparr>clock_reads := refresh_reading w\<rparr>"

fun is_str :: "json \<Rightarrow> bool" where
  "is_str (JString _) = True"
| "is_str _ = False"

text \<open>\<^verbatim>\<open>expires_in\<close> is truthy and \<^verbatim>\<open>int(expires_in)\<close> raises \<^verbatim>\<open>TypeError\<close> or \<^verbatim>\<open>ValueError\<close>.\<close>

definition expires_in_rejected :: "json \<Rightarrow> bool" where
  "expires_in_rejected e =
     (truthy e \<and>
      (case py_int e of
         Inl x \<Rightarrow> exc_class x = TypeError \<or> exc_class x = ValueError
       | Inr _ \<Rightarrow> False))"

text \<open>
  The outcomes of the token-endpoint call for which an authentication error is due: no
  response, a 4xx or 5xx status, a body that is not JSON, an \<^verbatim>\<open>access_token\<close> that is not a
  non-empty string, or a truthy \<^verbatim>\<open>expires_in\<close> that \<^verbatim>\<open>int\<close> rejects.
\<close>

definition auth_failure :: "http_outcome \<Rightarrow> bool" where
  "auth_failure out =
     (case out of
        TransportFailure _ \<Rightarrow> True
      | Received r \<Rightarrow>
          (400 \<le> status_code r \<and> status_code r < 600) \<or>
          (case body_json r of
             None \<Rightarrow> True
           | Some (JObject kvs) \<Rightarrow>
               \<not> truthy (dict_get kvs ''access_token'') \<or>
               \<not> is_str (dict_get kvs ''access_token'') \<or>
               expires_in_rejected (dict_get kvs ''expires_in'')
           | Some _ \<Rightarrow> False))"

text \<open>The lifetime that \<^verbatim>\<open>expires_in\<close> stands for fits \<^verbatim>\<open>timedelta\<close> and \<^verbatim>\<open>datetime\<close> at the
  reading \<open>now\<close>, and \<^verbatim>\<open>int\<close> does not overflow on it.\<close>

definition expiry_representable :: "json \<Rightarrow> datetime \<Rightarrow> bool" where
  "expiry_representable e now =
     (case py_int (if truthy e then e else JInt 300) of
        Inl x \<Rightarrow> exc_class x \<noteq> OverflowError
      | Inr n \<Rightarrow>
          - 999999999 \<le> n div 86400 \<and> n div 86400 \<le> 999999999 \<and>
          0 \<le> now + n * 1000000 \<and> now + n * 1000000 < datetime_end)"

text \<open>A decoded body, if the outcome has one, is a JSON object with a representable expiry.\<close>

definition object_reply :: "http_outcome \<Rightarrow> datetime \<Rightarrow> bool" where
  "object_reply out now =
     (case out of
        TransportFailure _ \<Rightarrow> True
      | Received r \<Rightarrow>
          (case body_json r of
             None \<Rightarrow> True
           | Some (JObject kvs) \<Rightarrow> expiry_representable (dict_get kvs ''expires_in'') now
           | Some _ \<Rightarrow> False))"

subsection \<open>Example inputs\<close>

definition example_config :: client_config where
  "example_config =
     \<lparr>base_url = ''https://api.haloconnect.com/fhir'',
      token_url = ''https://api.haloconnect.com/oauth2/token'',
      client_id = ''zantra'', client_secret = ''s3cret'', scope = [], audience = [],
      timeout = 30, token_refresh_buffer = 60\<rparr>"

text \<open>A world whose clock starts in the year 2025 and advances one second per reading, whose
  network gives the same outcome to every call, and whose cache holds \<open>tok\<close>.\<close>

definition example_world :: "http_outcome \<Rightarrow> TokenData option \<Rightarrow> world" where
  "example_world out tok =
     \<lparr>utcnow_at = (\<lambda>n. 63900000000000000 + int n * 1000000), clock_reads = 0,
      reply_to = (\<lambda>_. out), sent = [], log_records = [], cached_token = tok\<rparr>"

definition json_response :: "int \<Rightarrow> string \<Rightarrow> json \<Rightarrow> http_outcome" where
  "json_response st txt v =
     Received \<lparr>status_code = st, content_type = Some ''application/json'',
               body_text = txt, body_json = Some v\<rparr>"

definition token_response :: "string \<Rightarrow> (string \<times> json) list \<Rightarrow> http_outcome" where
  "token_response txt kvs = json_response 200 txt (JObject kvs)"

definition fresh_token :: TokenData where
  "fresh_token = \<lparr>access_token = ''cached'', expires_at = 63900003600000000\<rparr>"

definition expired_token :: TokenData where
  "expired_token = \<lparr>access_token = ''old'', expires_at = 63900000030000000\<rparr>"

definition reply_hour :: http_outcome where
  \<open>reply_hour =
     token_response ''{"access_token": "tok", "expires_in": 3600}''
       [(''access_token'', JString ''tok''), (''expires_in'', JInt 3600)]\<close>

definition reply_zero :: http_outcome where
  \<open>reply_zero =
     token_response ''{"access_token": "tok", "expires_in": 0}''
       [(''access_token'', JString ''tok''), (''expires_in'', JInt 0)]\<close>

definition reply_null :: http_outcome where
  \<open>reply_null =
     token_response ''{"access_token": "tok", "expires_in": null}''
       [(''access_token'', JString ''tok''), (''expires_in'', JNull)]\<close>

definition reply_blank :: http_outcome where
  \<open>reply_blank =
     token_response ''{"access_token": "tok", "expires_in": ""}''
       [(''access_token'', JString ''tok''), (''expires_in'', JString [])]\<close>

definition reply_not_found :: http_outcome where
  \<open>reply_not_found =
     Received \<lparr>status_code = 404, content_type = Some ''text/plain'',
               body_text = ''Not Found'', body_json = None\<rparr>\<close>

definition reply_big_json :: http_outcome where
  \<open>reply_big_json =
     json_response 500 (''{"detail": "'' @ replicate 5000 (CHR ''x'') @ ''"}'')
       (JObject [(''detail'', JString (replicate 5000 (CHR ''x'')))])\<close>

section \<open>orchestrator/main.py\<close>

subsection \<open>The host: clocks and the log file\<close>

text \<open>
  The log file holds text. \<open>Raw s\<close> is any text \<open>s\<close>; \<open>Dumped v\<close> stands for the text
  \<^verbatim>\<open>json.dumps(v, indent=2) + "\n"\<close> that \<open>logger_log\<close> writes, of which the \<^verbatim>\<open>json\<close> module guarantees
  that it is not blank and that \<^verbatim>\<open>json.loads\<close> of it, stripped, gives \<open>v\<close> back
  (\<open>v\<close> being made of dicts with string keys, lists, strings, numbers, booleans and \<^verbatim>\<open>None\<close>).
  On raw text \<^verbatim>\<open>json.loads\<close> is the parameter \<open>json_loads\<close>: the decoded value, or the
  message of the \<^verbatim>\<open>JSONDecodeError\<close>.
\<close>

datatype file_text = Raw string | Dumped json

text \<open>
  The host of the orchestrator: \<open>now_at w n\<close> and \<open>utc_now_at w n\<close> are what \<^verbatim>\<open>datetime.now()\<close>
  (naive local time) and \<^verbatim>\<open>datetime.now(UTC)\<close> return at the \<open>n\<close>-th reading of a clock;
  \<open>stop_set_at w n\<close> tells whether the stop event is set when the loop tests it for the
  \<open>n\<close>-th time; \<open>log_file\<close> is the content of the log file, if it exists; \<open>isoformat\<close> is
  \<^verbatim>\<open>moment.astimezone(UTC).isoformat()\<close>.
\<close>

record host =
  now_at :: "nat \<Rightarrow> datetime"
  utc_now_at :: "nat \<Rightarrow> datetime"
  host_reads :: nat
  stop_set_at :: "nat \<Rightarrow> bool"
  polls :: nat
  log_file :: "file_text option"
  json_loads :: "string \<Rightarrow> string + json"
  isoformat :: "datetime \<Rightarrow> string"

definition utc_now :: "host \<Rightarrow> datetime \<times> host" where
  "utc_now w = (utc_now_at w (host_reads w), w\<lparr>host_reads := Suc (host_reads w)\<rparr>)"

definition datetime_now :: "host \<Rightarrow> datetime \<times> host" where
  "datetime_now w = (now_at w (host_reads w), w\<lparr>host_reads := Suc (host_reads w)\<rparr>)"

text \<open>\<^verbatim>\<open>s.replace(old, new)\<close> for a non-empty \<open>old\<close>: occurrences are replaced from the left and
  do not overlap; \<open>skip\<close> counts the characters of a match still to pass over.\<close>

fun replace_from :: "nat \<Rightarrow> string \<Rightarrow> string \<Rightarrow> string \<Rightarrow> string" where
  "replace_from skip old new [] = []"
| "replace_from skip old new (c # cs) =
     (if 0 < skip then replace_from (skip - 1) old new cs
      else if take (length old) (c # cs) = old
           then new @ replace_from (length old - 1) old new cs
      else c # replace_from 0 old new cs)"

definition str_replace :: "string \<Rightarrow> string \<Rightarrow> string \<Rightarrow> string" where
  "str_replace old new s = replace_from 0 old new s"

text \<open>A moment is an instant on the UTC time line, so a naive moment, which the code takes
  as UTC, and an aware one are rendered alike.\<close>

definition format_timestamp :: "(datetime \<Rightarrow> string) \<Rightarrow> datetime \<Rightarrow> string" where
  "format_timestamp render moment = str_replace ''+00:00'' ''Z'' (render moment)"

subsection \<open>TaskLogger\<close>

definition read_history :: "host \<Rightarrow> pyexc + json list" where
  "read_history w =
     (case log_file w of
        None \<Rightarrow> Inr []
      | Some (Dumped data) \<Rightarrow>
          (case data of
             JArray entries \<Rightarrow> Inr entries
           | _ \<Rightarrow> Inl (PyExc ValueError ''Task log must contain a JSON list of entries.''))
      | Some (Raw s) \<Rightarrow>
          (let raw_content = py_strip s in
           if raw_content = [] then Inr []
           else
             (case json_loads w raw_content of
                Inl m \<Rightarrow>
                  Inl (PyExc ValueError (''Task log is corrupted and cannot be parsed: '' @ m))
              | Inr (JArray entries) \<Rightarrow> Inr entries
              | Inr _ \<Rightarrow> Inl (PyExc ValueError ''Task log must contain a JSON list of entries.''))))"

text \<open>The dict that \<open>logger_log\<close> builds.\<close>

definition log_entry ::
  "(datetime \<Rightarrow> string) \<Rightarrow> string \<Rightarrow> string \<Rightarrow> datetime \<Rightarrow> datetime \<Rightarrow> string option \<Rightarrow>
   (string \<times> json) list option \<Rightarrow> (string \<times> json) list" where
  "log_entry render task_name status started_at completed_at message details =
     [(''task'', JString task_name),
      (''status'', JString status),
      (''started_at'', JString (format_timestamp render started_at)),
      (''completed_at'', JString (format_timestamp render completed_at))]
     @ (case message of
          None \<Rightarrow> []
        | Some m \<Rightarrow> if m \<noteq> [] then [(''message'', JString m)] else [])
     @ (case details of
          None \<Rightarrow> []
        | Some d \<Rightarrow> [(''details'', JObject d)])"

text \<open>\<open>logger_log\<close> returns \<open>None\<close> when it returns, \<open>Some\<close> of the exception when it raises.\<close>

definition logger_log ::
  "string \<Rightarrow> string \<Rightarrow> datetime option \<Rightarrow> string option \<Rightarrow> (string \<times> json) list option \<Rightarrow>
   host \<Rightarrow> pyexc option \<times> host" where
  "logger_log task_name status start_time message details w =
     (let (completed_at, w1) = utc_now w;
          started_at = (case start_time of None \<Rightarrow> completed_at | Some t \<Rightarrow> t);
          entry = log_entry (isoformat w) task_name status started_at completed_at message details
      in case read_history w1 of
           Inl e \<Rightarrow> (Some e, w1)
         | Inr history \<Rightarrow>
             (None, w1\<lparr>log_file := Some (Dumped (JArray (history @ [JObject entry])))\<rparr>))"

subsection \<open>ScheduledTask\<close>

text \<open>
  A call of a task's action is modelled by what it does for its caller: it returns a value
  (a dict or \<^verbatim>\<open>None\<close>) or raises. \<open>time_of_day\<close> is a naive \<^verbatim>\<open>datetime.time\<close>, in microseconds
  after midnight. Naive datetimes are not bounded here: the code runs long before the
  year 9999.
\<close>

datatype outcome = Returns json | Raises pyexc

record ScheduledTask =
  name :: string
  time_of_day :: int
  action :: outcome
  next_run :: datetime

definition date_of :: "datetime \<Rightarrow> int" where
  "date_of t = t div us_per_day"

definition time_of :: "datetime \<Rightarrow> int" where
  "time_of t = t mod us_per_day"

definition combine :: "int \<Rightarrow> int \<Rightarrow> datetime" where
  "combine d tod = d * us_per_day + tod"

definition schedule_next :: "ScheduledTask \<Rightarrow> host \<Rightarrow> ScheduledTask \<times> host" where
  "schedule_next task w =
     (let (now, w1) = datetime_now w;
          candidate = combine (date_of now) (time_of_day task);
          candidate = (if candidate \<le> now then candidate + us_per_day else candidate)
      in (task\<lparr>next_run := candidate\<rparr>, w1))"

definition mark_executed :: "ScheduledTask \<Rightarrow> host \<Rightarrow> ScheduledTask \<times> host" where
  "mark_executed task w = schedule_next task w"

text \<open>The constructor: \<^verbatim>\<open>__post_init__\<close> sets \<open>next_run\<close>, which has no value before.\<close>

definition new_task :: "string \<Rightarrow> int \<Rightarrow> outcome \<Rightarrow> host \<Rightarrow> ScheduledTask \<times> host" where
  "new_task nm tod act w =
     schedule_next \<lparr>name = nm, time_of_day = tod, action = act, next_run = 0\<rparr> w"

subsection \<open>execute\_with\_logging\<close>

text \<open>
  An exception of the action that is an \<^verbatim>\<open>Exception\<close> sets the status and the message and is
  raised again; any other leaves them as they were. The \<^verbatim>\<open>finally\<close> clause logs in every
  case, and an exception of \<open>logger_log\<close> replaces the result or the exception on its way.
\<close>

definition execute_with_logging :: "string \<Rightarrow> outcome \<Rightarrow> host \<Rightarrow> (pyexc + json) \<times> host" where
  "execute_with_logging task_name act w =
     (let (start_time, w1) = utc_now w in
      case act of
        Returns result \<Rightarrow>
          (let details = (case result of JObject d \<Rightarrow> Some d | _ \<Rightarrow> None) in
           case logger_log task_name ''success'' (Some start_time) None details w1 of
             (Some e, w2) \<Rightarrow> (Inl e, w2)
           | (None, w2) \<Rightarrow> (Inr result, w2))
      | Raises exc \<Rightarrow>
          (let status = (if is_Exception (exc_class exc) then ''failed'' else ''success'');
               message = (if is_Exception (exc_class exc) then Some (exc_msg exc) else None)
           in case logger_log task_name status (Some start_time) message None w1 of
                (Some e, w2) \<Rightarrow> (Inl e, w2)
              | (None, w2) \<Rightarrow> (Inl exc, w2)))"

subsection \<open>DailyTaskScheduler\<close>

definition add_daily_task ::
  "string \<Rightarrow> int \<Rightarrow> outcome \<Rightarrow> ScheduledTask list \<Rightarrow> host \<Rightarrow> ScheduledTask list \<times> host" where
  "add_daily_task nm run_time act tasks w =
     (let (task, w1) = new_task nm run_time act w in (tasks @ [task], w1))"

text \<open>
  Lines 135-141, the body of the loop for a due task: the \<^verbatim>\<open>try\<close> with its \<^verbatim>\<open>except Exception: pass\<close>
  and its \<^verbatim>\<open>finally: task.mark_executed()\<close>. The first component is the exception that gets
  past the \<^verbatim>\<open>except\<close> clause, if any.
\<close>

definition attempt :: "ScheduledTask \<Rightarrow> host \<Rightarrow> pyexc option \<times> ScheduledTask \<times> host" where
  "attempt task w =
     (let (res, w1) = execute_with_logging (name task) (action task) w;
          (task', w2) = mark_executed task w1
      in ((case res of
             Inl e \<Rightarrow> if is_Exception (exc_class e) then None else Some e
           | Inr _ \<Rightarrow> None),
          task', w2))"

text \<open>Lines 133-141, \<^verbatim>\<open>for task in self._tasks\<close>: an exception that is not caught leaves the
  loop, and the tasks after it are not looked at.\<close>

fun run_due ::
  "datetime \<Rightarrow> ScheduledTask list \<Rightarrow> host \<Rightarrow> pyexc option \<times> ScheduledTask list \<times> host" where
  "run_due now [] w = (None, [], w)"
| "run_due now (task # rest) w =
     (if now \<ge> next_run task then
        (case attempt task w of
           (Some e, task', w1) \<Rightarrow> (Some e, task' # rest, w1)
         | (None, task', w1) \<Rightarrow>
             (case run_due now rest w1 of (r, rest', w2) \<Rightarrow> (r, task' # rest', w2)))
      else
        (case run_due now rest w of (r, rest', w2) \<Rightarrow> (r, task # rest', w2)))"

text \<open>Lines 132-141, one turn of the \<^verbatim>\<open>while\<close> loop, before it sleeps.\<close>

definition poll_cycle ::
  "ScheduledTask list \<Rightarrow> host \<Rightarrow> pyexc option \<times> ScheduledTask list \<times> host" where
  "poll_cycle tasks w = (let (now, w1) = datetime_now w in run_due now tasks w1)"

text \<open>
  \<open>start\<close>: the loop runs until the stop event is set or an exception leaves it. It may run
  for ever, so it is given fuel, one unit per test of the stop event; \<open>None\<close> is the loop
  still running when the fuel is spent. The result holds the exception that left the loop,
  if any.
\<close>

fun start ::
  "nat \<Rightarrow> ScheduledTask list \<Rightarrow> host \<Rightarrow> (pyexc option \<times> ScheduledTask list \<times> host) option" where
  "start 0 tasks w = None"
| "start (Suc fuel) tasks w =
     (if stop_set_at w (polls w) then Some (None, tasks, w\<lparr>polls := Suc (polls w)\<rparr>)
      else
        (case poll_cycle tasks (w\<lparr>polls := Suc (polls w)\<rparr>) of
           (Some e, tasks', w1) \<Rightarrow> Some (Some e, tasks', w1)
         | (None, tasks', w1) \<Rightarrow> start fuel tasks' w1))"

subsection \<open>The command line\<close>

text \<open>
  \<open>run_recalls\<close> and \<open>run_claims\<close> are the two actions; what they do is the agents' business
  and is given by their outcomes. \<open>run_scheduler\<close> registers them at 09:00 and 17:00.
\<close>

datatype command = RunScheduler | RunRecalls | RunClaims

definition run_scheduler ::
  "nat \<Rightarrow> outcome \<Rightarrow> outcome \<Rightarrow> host \<Rightarrow> (pyexc option \<times> host) option" where
  "run_scheduler fuel run_recalls run_claims w =
     (let (tasks1, w1) = add_daily_task ''daily_recalls'' 32400000000 run_recalls [] w;
          (tasks2, w2) = add_daily_task ''daily_claims'' 61200000000 run_claims tasks1 w1
      in case logger_log ''scheduler'' ''started'' None (Some ''Daily scheduler started.'') None w2 of
           (Some e, w3) \<Rightarrow> Some (Some e, w3)
         | (None, w3) \<Rightarrow>
             (case start fuel tasks2 w3 of
                None \<Rightarrow> None
              | Some (r, tasks', w4) \<Rightarrow>
                  (case logger_log ''scheduler'' ''stopped'' None (Some ''Daily scheduler stopped.'') None w4 of
                     (Some e, w5) \<Rightarrow> Some (Some e, w5)
                   | (None, w5) \<Rightarrow> Some (r, w5))))"

text \<open>\<open>main\<close> returns the exit code 0 or raises; \<open>None\<close> is the scheduler still running.\<close>

definition main ::
  "nat \<Rightarrow> command \<Rightarrow> outcome \<Rightarrow> outcome \<Rightarrow> host \<Rightarrow> ((pyexc + int) \<times> host) option" where
  "main fuel cmd run_recalls run_claims w =
     (case cmd of
        RunRecalls \<Rightarrow>
          (case execute_with_logging ''daily_recalls'' run_recalls w of
             (Inl e, w1) \<Rightarrow> Some (Inl e, w1)
           | (Inr _, w1) \<Rightarrow> Some (Inr 0, w1))
      | RunClaims \<Rightarrow>
          (case execute_with_logging ''daily_claims'' run_claims w of
             (Inl e, w1) \<Rightarrow> Some (Inl e, w1)
           | (Inr _, w1) \<Rightarrow> Some (Inr 0, w1))
      | RunScheduler \<Rightarrow>
          (case run_scheduler fuel run_recalls run_claims w of
             None \<Rightarrow> None
           | Some (Some e, w1) \<Rightarrow> Some (Inl e, w1)
           | Some (None, w1) \<Rightarrow> Some (Inr 0, w1)))"

text \<open>
  \<^verbatim>\<open>sys.exit(main())\<close>: the exit status is the code that \<open>main\<close> returns, and 1 when an
  \<^verbatim>\<open>Exception\<close> leaves \<open>main\<close> uncaught. What \<^verbatim>\<open>SystemExit\<close> and \<^verbatim>\<open>KeyboardInterrupt\<close> exit with
  depends on data that an exception does not carry here.
\<close>

definition exit_status :: "pyexc + int \<Rightarrow> int option" where
  "exit_status r =
     (case r of
        Inr code \<Rightarrow> Some code
      | Inl e \<Rightarrow> if is_Exception (exc_class e) then Some 1 else None)"

subsection \<open>Notions used to state the properties of the orchestrator\<close>

text \<open>
  The next occurrence of a time of day, in the words of the specification: tomorrow at that
  time if today's occurrence has passed or is now, today at that time otherwise.
\<close>

definition next_occurrence :: "datetime \<Rightarrow> int \<Rightarrow> datetime" where
  "next_occurrence now tod =
     (if combine (date_of now) tod \<le> now then combine (date_of now + 1) tod
      else combine (date_of now) tod)"

text \<open>An attempt on a task reads the clocks three times: the start time, the completion
  time inside \<open>logger_log\<close>, and the local time of \<open>mark_executed\<close>, which is the third.\<close>

definition marked_at :: "host \<Rightarrow> datetime" where
  "marked_at w = now_at w (host_reads w + 2)"

definition rescheduled :: "ScheduledTask \<Rightarrow> host \<Rightarrow> ScheduledTask" where
  "rescheduled task w = task\<lparr>next_run := next_occurrence (marked_at w) (time_of_day task)\<rparr>"

text \<open>The entry that an attempt logs for an action that raises the exception \<open>exc\<close>.\<close>

definition failed_entry :: "ScheduledTask \<Rightarrow> pyexc \<Rightarrow> host \<Rightarrow> (string \<times> json) list" where
  "failed_entry task exc w =
     log_entry (isoformat w) (name task) ''failed'' (utc_now_at w (host_reads w))
       (utc_now_at w (Suc (host_reads w))) (Some (exc_msg exc)) None"

fun is_list :: "json \<Rightarrow> bool" where
  "is_list (JArray _) = True"
| "is_list _ = False"

text \<open>A call of \<open>logger_log\<close> with its arguments, and a sequence of calls made one after the other;
  the sequence stops at the first call that raises.\<close>

record log_call =
  call_task :: string
  call_status :: string
  call_start :: "datetime option"
  call_message :: "string option"
  call_details :: "(string \<times> json) list option"

fun log_all :: "log_call list \<Rightarrow> host \<Rightarrow> pyexc option \<times> host" where
  "log_all [] w = (None, w)"
| "log_all (c # cs) w =
     (case logger_log (call_task c) (call_status c) (call_start c) (call_message c) (call_details c) w of
        (Some e, w1) \<Rightarrow> (Some e, w1)
      | (None, w1) \<Rightarrow> log_all cs w1)"

text \<open>The entry of a call that takes the \<open>k\<close>-th reading of the clock.\<close>

definition call_entry :: "host \<Rightarrow> nat \<Rightarrow> log_call \<Rightarrow> json" where
  "call_entry w k c =
     JObject (log_entry (isoformat w) (call_task c) (call_status c)
       (case call_start c of None \<Rightarrow> utc_now_at w k | Some t \<Rightarrow> t) (utc_now_at w k)
       (call_message c) (call_details c))"

text \<open>A field of an entry, as \<^verbatim>\<open>entry.get(key)\<close> reads it; \<open>None\<close> when the entry is not a dict
  or lacks the key.\<close>

fun field :: "json \<Rightarrow> string \<Rightarrow> json option" where
  "field (JObject kvs) k = map_of kvs k"
| "field _ k = None"

text \<open>The one-shot commands, their task names and actions.\<close>

fun one_shot :: "command \<Rightarrow> bool" where
  "one_shot RunScheduler = False"
| "one_shot _ = True"

fun task_of :: "command \<Rightarrow> string" where
  "task_of RunClaims = ''daily_claims''"
| "task_of _ = ''daily_recalls''"

fun action_of :: "command \<Rightarrow> outcome \<Rightarrow> outcome \<Rightarrow> outcome" where
  "action_of RunClaims run_recalls run_claims = run_claims"
| "action_of _ run_recalls run_claims = run_recalls"

subsection \<open>Example inputs of the orchestrator\<close>

text \<open>
  A host whose clocks, local time being UTC, start at \<open>t0\<close> and advance one second per
  reading. \<open>example_loads\<close> decodes two texts and rejects the rest as \<^verbatim>\<open>json.loads\<close> rejects
  text that starts with no JSON value; \<open>example_isoformat\<close> renders the instants of
  2025-06-02, day 739403 after 0001-01-01, at whole seconds.
\<close>

definition example_loads :: "string \<Rightarrow> string + json" where
  "example_loads s =
     (if s = ''[]'' then Inr (JArray [])
      else if s = ''{}'' then Inr (JObject [])
      else Inl ''Expecting value'')"

definition pad2 :: "nat \<Rightarrow> string" where
  "pad2 n = [digit_char (n div 10), digit_char (n mod 10)]"

definition example_isoformat :: "datetime \<Rightarrow> string" where
  "example_isoformat t =
     (let s = nat (time_of t div 1000000) in
      ''2025-06-02T'' @ pad2 (s div 3600) @ '':'' @ pad2 (s mod 3600 div 60) @ '':'' @
      pad2 (s mod 60) @ ''+00:00'')"

definition example_host :: "datetime \<Rightarrow> file_text option \<Rightarrow> host" where
  "example_host t0 file =
     \<lparr>now_at = (\<lambda>n. t0 + int n * 1000000), utc_now_at = (\<lambda>n. t0 + int n * 1000000),
      host_reads = 0, stop_set_at = (\<lambda>_. False), polls = 0, log_file = file,
      json_loads = example_loads, isoformat = example_isoformat\<rparr>"

text \<open>08:00:00, 09:00:00 and 09:01:00 on 2025-06-02.\<close>

definition eight_o_clock :: datetime where
  "eight_o_clock = 63884448000000000"

definition nine_o_clock :: datetime where
  "nine_o_clock = 63884451600000000"

definition one_past_nine :: datetime where
  "one_past_nine = 63884451660000000"

text \<open>A task set for 09:00 whose action raises \<^verbatim>\<open>ValueError("boom")\<close>, and one set for the same
  time whose action returns a dict.\<close>

definition boom_task :: "datetime \<Rightarrow> ScheduledTask" where
  "boom_task due =
     \<lparr>name = ''daily_recalls'', time_of_day = 32400000000,
      action = Raises (PyExc ValueError ''boom''), next_run = due\<rparr>"

definition fine_task :: "datetime \<Rightarrow> ScheduledTask" where
  "fine_task due =
     \<lparr>name = ''daily_claims'', time_of_day = 32400000000,
      action = Returns (JObject [(''submitted'', JInt 2)]), next_run = due\<rparr>"

text \<open>Two calls of \<open>logger_log\<close>, and one with an empty message.\<close>

definition call_recalls :: log_call where
  "call_recalls =
     \<lparr>call_task = ''daily_recalls'', call_status = ''success'', call_start = None,
      call_message = None, call_details = Some [(''scheduled_count'', JInt 3)]\<rparr>"

definition call_claims :: log_call where
  "call_claims =
     \<lparr>call_task = ''daily_claims'', call_status = ''failed'', call_start = Some 63884451600000000,
      call_message = Some ''boom'', call_details = None\<rparr>"

definition call_empty_message :: log_call where
  "call_empty_message =
     \<lparr>call_task = ''scheduler'', call_status = ''started'', call_start = None,
      call_message = Some [], call_details = None\<rparr>"

section \<open>Properties\<close>

subsection \<open>The token getter\<close>

lemmas client_defs =
  get_access_token_def cached_if_valid_def is_valid_def valid_at_def utcnow_def
  fetch_token_def session_send_def emit_def store_token_def raise_for_status_def
  dict_get_def timedelta_seconds_def datetime_add_def datetime_end_def us_per_day_def
  token_request_def request_def log_error_response_def content_type_or_empty_def
  py_upper_def upper_char_def lstrip_slash_def

lemmas example_defs =
  example_config_def example_world_def json_response_def token_response_def
  fresh_token_def expired_token_def reply_hour_def reply_zero_def reply_null_def
  reply_blank_def reply_not_found_def reply_big_json_def

lemma cached_if_valid_fresh:
  "cached_token w = Some tok \<Longrightarrow>
   valid_at tok (token_refresh_buffer cfg) (utcnow_at w (clock_reads w)) = Inr True \<Longrightarrow>
   cached_if_valid cfg w = (Inr (Some (access_token tok)), w\<lparr>clock_reads := Suc (clock_reads w)\<rparr>)"
  by (simp add: cached_if_valid_def is_valid_def utcnow_def)

lemma cached_if_valid_expired:
  "cached_token w = Some tok \<Longrightarrow>
   valid_at tok (token_refresh_buffer cfg) (utcnow_at w (clock_reads w)) = Inr False \<Longrightarrow>
   cached_if_valid cfg w = (Inr None, w\<lparr>clock_reads := Suc (clock_reads w)\<rparr>)"
  by (simp add: cached_if_valid_def is_valid_def utcnow_def)

lemma cached_if_valid_absent:
  "cached_token w = None \<Longrightarrow> cached_if_valid cfg w = (Inr None, w)"
  by (simp add: cached_if_valid_def)

lemma get_access_token_fresh:
  "cached_token w = Some tok \<Longrightarrow>
   valid_at tok (token_refresh_buffer cfg) (utcnow_at w (clock_reads w)) = Inr True \<Longrightarrow>
   get_access_token cfg w = (Inr (access_token tok), w\<lparr>clock_reads := Suc (clock_reads w)\<rparr>)"
  by (simp add: get_access_token_def cached_if_valid_fresh)

lemma get_access_token_stale:
  "stale cfg w \<Longrightarrow> get_access_token cfg w = fetch_token cfg (after_checks w)"
proof (cases "cached_token w")
  case None
  assume "stale cfg w"
  from None show ?thesis
    by (simp add: get_access_token_def cached_if_valid_absent after_checks_def refresh_reading_def)
next
  case (Some tok)
  assume st: "stale cfg w"
  let ?w1 = "w\<lparr>clock_reads := Suc (clock_reads w)\<rparr>"
  from st Some have v1: "valid_at tok (token_refresh_buffer cfg) (utcnow_at w (clock_reads w)) = Inr False"
    and v2: "valid_at tok (token_refresh_buffer cfg) (utcnow_at w (Suc (clock_reads w))) = Inr False"
    by (simp_all add: stale_def)
  have c1: "cached_if_valid cfg w = (Inr None, ?w1)"
    using Some v1 by (rule cached_if_valid_expired)
  have c2: "cached_if_valid cfg ?w1 = (Inr None, ?w1\<lparr>clock_reads := Suc (clock_reads ?w1)\<rparr>)"
    by (rule cached_if_valid_expired) (use Some v2 in simp_all)
  show ?thesis
    using Some by (simp add: get_access_token_def c1 c2 after_checks_def refresh_reading_def)
qed

lemma sent_store_token: "sent (snd (store_token data w)) = sent w"
  by (auto simp: store_token_def emit_def utcnow_def Let_def
           split: sum.splits json.splits prod.splits if_splits)

lemma sent_fetch_token: "sent (snd (fetch_token cfg w)) = sent w @ [token_request cfg]"
  by (auto simp: fetch_token_def session_send_def emit_def Let_def sent_store_token
           split: http_outcome.splits option.splits prod.splits)

lemma store_token_success:
  "store_token data w = (Inr s, w') \<Longrightarrow>
   \<exists>kvs n. data = JObject kvs \<and> dict_get kvs ''access_token'' = JString s \<and> s \<noteq> [] \<and>
     py_int (if truthy (dict_get kvs ''expires_in'') then dict_get kvs ''expires_in'' else JInt 300) = Inr n \<and>
     cached_token w' = Some \<lparr>access_token = s, expires_at = utcnow_at w (clock_reads w) + n * 1000000\<rparr>"
  apply (cases data)
  apply (auto simp: store_token_def emit_def utcnow_def Let_def timedelta_seconds_def datetime_add_def
           split: sum.splits json.splits prod.splits if_splits)
  done

lemma fetch_token_success:
  assumes "fetch_token cfg w = (Inr s, w')"
  shows "\<exists>r kvs n. reply_to w (length (sent w)) = Received r \<and> body_json r = Some (JObject kvs) \<and>
     py_int (if truthy (dict_get kvs ''expires_in'') then dict_get kvs ''expires_in'' else JInt 300) = Inr n \<and>
     cached_token w' = Some \<lparr>access_token = s, expires_at = utcnow_at w (clock_reads w) + n * 1000000\<rparr>"
proof -
  let ?w2 = "snd (session_send (token_request cfg) (emit DEBUG ''Refreshing Halo Connect OAuth2 token'' [] w))"
  from assms obtain r data where r: "reply_to w (length (sent w)) = Received r"
    and d: "body_json r = Some data" and st: "store_token data ?w2 = (Inr s, w')"
    by (auto simp: fetch_token_def session_send_def emit_def Let_def
             split: http_outcome.splits option.splits prod.splits)
  from store_token_success[OF st] r d show ?thesis
    by (auto simp: session_send_def emit_def)
qed

text \<open>
  Claim C1, as amended. A call made while the cached token is valid under the refresh buffer
  (\<^verbatim>\<open>is_valid\<close> answers \<^verbatim>\<open>True\<close> at the first reading of the clock) returns the cached access
  token and changes nothing but the count of clock readings: no request is sent and the
  cache is kept. A call made while the token is absent, or invalid at both checks, sends
  exactly one request, to the token endpoint; and if it returns a token, that token is
  cached with \<^verbatim>\<open>expires_at = now + int(expires_in)\<close> seconds when \<^verbatim>\<open>expires_in\<close> is truthy, and
  \<^verbatim>\<open>now + 300\<close> seconds when \<^verbatim>\<open>expires_in\<close> is absent or falsy, \<open>now\<close> being the reading of the
  clock taken after the response.
\<close>

theorem get_access_token_cache_and_expiry:
  "(cached_token w = Some tok \<and>
    valid_at tok (token_refresh_buffer cfg) (utcnow_at w (clock_reads w)) = Inr True \<longrightarrow>
      get_access_token cfg w = (Inr (access_token tok), w\<lparr>clock_reads := Suc (clock_reads w)\<rparr>))
   \<and> (stale cfg w \<longrightarrow> sent (snd (get_access_token cfg w)) = sent w @ [token_request cfg])
   \<and> (stale cfg w \<and> fst (get_access_token cfg w) = Inr s \<longrightarrow>
        (\<exists>r kvs n.
           reply_to w (length (sent w)) = Received r \<and> body_json r = Some (JObject kvs) \<and>
           py_int (if truthy (dict_get kvs ''expires_in'') then dict_get kvs ''expires_in''
                   else JInt 300) = Inr n \<and>
           cached_token (snd (get_access_token cfg w)) =
             Some \<lparr>access_token = s,
                   expires_at = utcnow_at w (refresh_reading w) + n * 1000000\<rparr>))"
proof (intro conjI impI)
  assume "cached_token w = Some tok \<and>
    valid_at tok (token_refresh_buffer cfg) (utcnow_at w (clock_reads w)) = Inr True"
  then show "get_access_token cfg w = (Inr (access_token tok), w\<lparr>clock_reads := Suc (clock_reads w)\<rparr>)"
    by (simp add: get_access_token_fresh)
next
  assume "stale cfg w"
  then show "sent (snd (get_access_token cfg w)) = sent w @ [token_request cfg]"
    by (simp add: get_access_token_stale sent_fetch_token after_checks_def)
next
  assume a: "stale cfg w \<and> fst (get_access_token cfg w) = Inr s"
  then have "fetch_token cfg (after_checks w) = (Inr s, snd (get_access_token cfg w))"
    by (metis get_access_token_stale prod.collapse)
  from fetch_token_success[OF this] show "\<exists>r kvs n.
           reply_to w (length (sent w)) = Received r \<and> body_json r = Some (JObject kvs) \<and>
           py_int (if truthy (dict_get kvs ''expires_in'') then dict_get kvs ''expires_in''
                   else JInt 300) = Inr n \<and>
           cached_token (snd (get_access_token cfg w)) =
             Some \<lparr>access_token = s,
                   expires_at = utcnow_at w (refresh_reading w) + n * 1000000\<rparr>"
    by (simp add: after_checks_def)
qed

text \<open>Witness for C1: a cached token with an hour left is returned without a request; a
  cached token inside the buffer is replaced by the one the endpoint returns.\<close>

theorem get_access_token_cache_and_expiry_witness:
  "valid_at fresh_token 60 63900000000000000 = Inr True
   \<and> get_access_token example_config (example_world reply_hour (Some fresh_token)) =
       (Inr ''cached'', (example_world reply_hour (Some fresh_token))\<lparr>clock_reads := 1\<rparr>)
   \<and> stale example_config (example_world reply_hour (Some expired_token))
   \<and> sent (snd (get_access_token example_config (example_world reply_hour (Some expired_token)))) =
       [token_request example_config]
   \<and> fst (get_access_token example_config (example_world reply_hour (Some expired_token))) = Inr ''tok''
   \<and> cached_token (snd (get_access_token example_config (example_world reply_hour (Some expired_token)))) =
       Some \<lparr>access_token = ''tok'', expires_at = 63900000002000000 + 3600 * 1000000\<rparr>"
  using get_access_token_cache_and_expiry
          [of "example_world reply_hour (Some fresh_token)" fresh_token example_config]
        get_access_token_cache_and_expiry
          [of "example_world reply_hour (Some expired_token)" _ example_config "''tok''"]
  by (simp add: client_defs example_defs stale_def refresh_reading_def)

text \<open>
  Counterexample to C1 as stated: the response \<^verbatim>\<open>{"access_token": "tok", "expires_in": 0}\<close>
  has \<^verbatim>\<open>expires_in\<close> present with value 0, and the cached token expires at \<open>now + 300\<close> seconds,
  not at \<open>now + 0\<close>.
\<close>

theorem expires_in_zero_counterexample:
  "py_get (JObject [(''access_token'', JString ''tok''), (''expires_in'', JInt 0)]) ''expires_in''
     = Inr (JInt 0)
   \<and> stale example_config (example_world reply_zero None)
   \<and> utcnow_at (example_world reply_zero None) 0 = 63900000000000000
   \<and> cached_token (snd (get_access_token example_config (example_world reply_zero None))) =
       Some \<lparr>access_token = ''tok'', expires_at = 63900000000000000 + 300 * 1000000\<rparr>
   \<and> cached_token (snd (get_access_token example_config (example_world reply_zero None))) \<noteq>
       Some \<lparr>access_token = ''tok'', expires_at = 63900000000000000 + 0 * 1000000\<rparr>"
  by (simp add: client_defs example_defs stale_def)


lemma map_of_without_key:
  "map_of (filter (\<lambda>kv. fst kv \<noteq> k) kvs) k' = (if k' = k then None else map_of kvs k')"
  by (induction kvs) auto

lemma store_token_default_lifetime:
  assumes a: "dict_get kvs ''access_token'' = JString s" "s \<noteq> []"
    and e: "\<not> truthy (dict_get kvs ''expires_in'')"
    and r: "0 \<le> utcnow_at w (clock_reads w) + 300 * 1000000"
           "utcnow_at w (clock_reads w) + 300 * 1000000 < datetime_end"
  shows "fst (store_token (JObject kvs) w) = Inr s"
    and "cached_token (snd (store_token (JObject kvs) w)) =
           Some \<lparr>access_token = s, expires_at = utcnow_at w (clock_reads w) + 300 * 1000000\<rparr>"
  using assms
  by (simp_all add: store_token_def emit_def utcnow_def timedelta_seconds_def datetime_add_def)

lemma store_token_falsy_as_absent:
  assumes a: "dict_get kvs ''access_token'' = JString s" "s \<noteq> []"
    and e: "\<not> truthy (dict_get kvs ''expires_in'')"
  shows "store_token (JObject kvs) w =
         store_token (JObject (filter (\<lambda>kv. fst kv \<noteq> ''expires_in'') kvs)) w"
proof -
  have 1: "dict_get (filter (\<lambda>kv. fst kv \<noteq> ''expires_in'') kvs) ''access_token'' = JString s"
    using a by (simp add: dict_get_def map_of_without_key)
  have 2: "dict_get (filter (\<lambda>kv. fst kv \<noteq> ''expires_in'') kvs) ''expires_in'' = JNull"
    by (simp add: dict_get_def map_of_without_key)
  show ?thesis
    using a e by (simp add: store_token_def 1 2)
qed

lemma fetch_token_decoded:
  assumes "reply_to w (length (sent w)) = Received r"
    and "\<not> (400 \<le> status_code r \<and> status_code r < 600)"
    and "body_json r = Some data"
  shows "fetch_token cfg w =
         store_token data
           (emit DEBUG ''Refreshing Halo Connect OAuth2 token'' [] w
              \<lparr>sent := sent w @ [token_request cfg]\<rparr>)"
  using assms
  by (auto simp: fetch_token_def session_send_def emit_def raise_for_status_def)

text \<open>
  Claim C10. When the token is absent or stale and the token endpoint answers, with a status
  below 400, a JSON object whose \<^verbatim>\<open>access_token\<close> is a non-empty string and whose \<^verbatim>\<open>expires_in\<close>
  is present but falsy, the getter does not raise: it returns the access token and caches it
  with \<^verbatim>\<open>expires_at\<close> 300 seconds after the reading of the clock (which must leave room for
  300 seconds before the end of year 9999). The response is handled exactly as the same
  response without the \<^verbatim>\<open>expires_in\<close> key.
\<close>

theorem falsy_expires_in_defaults:
  assumes st: "stale cfg w"
    and rp: "reply_to w (length (sent w)) = Received r"
    and ok: "\<not> (400 \<le> status_code r \<and> status_code r < 600)"
    and bd: "body_json r = Some (JObject kvs)"
    and at: "dict_get kvs ''access_token'' = JString s" "s \<noteq> []"
    and present: "map_of kvs ''expires_in'' = Some e"
    and falsy: "\<not> truthy e"
    and range: "0 \<le> utcnow_at w (refresh_reading w) + 300 * 1000000"
               "utcnow_at w (refresh_reading w) + 300 * 1000000 < datetime_end"
  shows "fst (get_access_token cfg w) = Inr s
     \<and> cached_token (snd (get_access_token cfg w)) =
         Some \<lparr>access_token = s, expires_at = utcnow_at w (refresh_reading w) + 300 * 1000000\<rparr>
     \<and> store_token (JObject kvs) w' =
         store_token (JObject (filter (\<lambda>kv. fst kv \<noteq> ''expires_in'') kvs)) w'"
proof -
  let ?w2 = "emit DEBUG ''Refreshing Halo Connect OAuth2 token'' [] (after_checks w)
               \<lparr>sent := sent (after_checks w) @ [token_request cfg]\<rparr>"
  have f: "\<not> truthy (dict_get kvs ''expires_in'')"
    using present falsy by (simp add: dict_get_def)
  have g: "get_access_token cfg w = store_token (JObject kvs) ?w2"
    using st rp ok bd
    by (simp add: get_access_token_stale fetch_token_decoded after_checks_def)
  have now: "utcnow_at ?w2 (clock_reads ?w2) = utcnow_at w (refresh_reading w)"
    by (simp add: emit_def after_checks_def)
  have "fst (store_token (JObject kvs) ?w2) = Inr s"
    by (rule store_token_default_lifetime(1)[OF at f]) (use range now in simp_all)
  moreover have "cached_token (snd (store_token (JObject kvs) ?w2)) =
      Some \<lparr>access_token = s, expires_at = utcnow_at ?w2 (clock_reads ?w2) + 300 * 1000000\<rparr>"
    by (rule store_token_default_lifetime(2)[OF at f]) (use range now in simp_all)
  ultimately show ?thesis
    using g now store_token_falsy_as_absent[OF at f, of w'] by simp
qed

text \<open>Witness for C10: the response \<^verbatim>\<open>{"access_token": "tok", "expires_in": null}\<close>.\<close>

theorem falsy_expires_in_defaults_witness:
  "stale example_config (example_world reply_null None)
   \<and> map_of [(''access_token'', JString ''tok''), (''expires_in'', JNull)] ''expires_in'' = Some JNull
   \<and> \<not> truthy JNull
   \<and> fst (get_access_token example_config (example_world reply_null None)) = Inr ''tok''
   \<and> cached_token (snd (get_access_token example_config (example_world reply_null None))) =
       Some \<lparr>access_token = ''tok'', expires_at = 63900000000000000 + 300 * 1000000\<rparr>
   \<and> store_token (JObject [(''access_token'', JString ''tok''), (''expires_in'', JNull)])
         (example_world reply_null None) =
       store_token (JObject [(''access_token'', JString ''tok'')]) (example_world reply_null None)"
  using falsy_expires_in_defaults
    [of example_config "example_world reply_null None"
        "\<lparr>status_code = 200, content_type = Some ''application/json'',
          body_text = ''{\"access_token\": \"tok\", \"expires_in\": null}'',
          body_json = Some (JObject [(''access_token'', JString ''tok''), (''expires_in'', JNull)])\<rparr>"
        "[(''access_token'', JString ''tok''), (''expires_in'', JNull)]" "''tok''" JNull
        "example_world reply_null None"]
  by (simp add: stale_def refresh_reading_def example_defs dict_get_def datetime_end_def us_per_day_def)


lemma store_token_object_rejected:
  assumes "\<not> truthy (dict_get kvs ''access_token'') \<or> \<not> is_str (dict_get kvs ''access_token'')
           \<or> expires_in_rejected (dict_get kvs ''expires_in'')"
  shows "\<exists>m. fst (store_token (JObject kvs) w) = Inl (PyExc HaloAuthError m)"
proof (cases "dict_get kvs ''access_token''")
  case (JString s)
  show ?thesis
  proof (cases "s = []")
    case True
    with JString show ?thesis by (simp add: store_token_def)
  next
    case False
    with JString assms have rej: "expires_in_rejected (dict_get kvs ''expires_in'')" by simp
    then obtain x where "py_int (dict_get kvs ''expires_in'') = Inl x"
      and "exc_class x = TypeError \<or> exc_class x = ValueError"
      and "truthy (dict_get kvs ''expires_in'')"
      by (auto simp: expires_in_rejected_def split: sum.splits)
    with JString False show ?thesis by (auto simp: store_token_def)
  qed
qed (simp_all add: store_token_def)

lemma store_token_object_accepted:
  assumes ok: "truthy (dict_get kvs ''access_token'')" "is_str (dict_get kvs ''access_token'')"
              "\<not> expires_in_rejected (dict_get kvs ''expires_in'')"
    and rep: "expiry_representable (dict_get kvs ''expires_in'') (utcnow_at w (clock_reads w))"
  shows "\<exists>s. fst (store_token (JObject kvs) w) = Inr s"
proof -
  from ok obtain s where s: "dict_get kvs ''access_token'' = JString s" "s \<noteq> []"
    by (cases "dict_get kvs ''access_token''") auto
  let ?e = "dict_get kvs ''expires_in''"
  show ?thesis
  proof (cases "py_int (if truthy ?e then ?e else JInt 300)")
    case (Inl x)
    with rep have "exc_class x \<noteq> OverflowError" by (simp add: expiry_representable_def)
    moreover from Inl have "truthy ?e" by (auto split: if_splits)
    moreover from Inl \<open>truthy ?e\<close> ok(3) have "exc_class x \<noteq> TypeError" "exc_class x \<noteq> ValueError"
      by (auto simp: expires_in_rejected_def)
    moreover have "exc_class x \<in> {TypeError, ValueError, OverflowError}"
      using Inl \<open>truthy ?e\<close>
      by (cases ?e rule: py_int.cases) (auto split: option.splits)
    ultimately show ?thesis by simp
  next
    case (Inr n)
    with rep have "- 999999999 \<le> n div 86400" "n div 86400 \<le> 999999999"
      "0 \<le> utcnow_at w (clock_reads w) + n * 1000000"
      "utcnow_at w (clock_reads w) + n * 1000000 < datetime_end"
      by (simp_all add: expiry_representable_def)
    with Inr s show ?thesis
      by (auto simp: store_token_def emit_def utcnow_def timedelta_seconds_def datetime_add_def)
  qed
qed

lemma fetch_token_transport_failure:
  "reply_to w (length (sent w)) = TransportFailure m \<Longrightarrow>
   fst (fetch_token cfg w) = Inl (PyExc HaloAuthError ''Failed to obtain Halo Connect token'')"
  by (simp add: fetch_token_def session_send_def emit_def)

lemma fetch_token_error_status:
  "reply_to w (length (sent w)) = Received r \<Longrightarrow> 400 \<le> status_code r \<and> status_code r < 600 \<Longrightarrow>
   fst (fetch_token cfg w) = Inl (PyExc HaloAuthError ''Failed to obtain Halo Connect token'')"
  by (simp add: fetch_token_def session_send_def emit_def raise_for_status_def)

lemma fetch_token_not_json:
  "reply_to w (length (sent w)) = Received r \<Longrightarrow> \<not> (400 \<le> status_code r \<and> status_code r < 600) \<Longrightarrow>
   body_json r = None \<Longrightarrow>
   fst (fetch_token cfg w) = Inl (PyExc HaloAuthError ''Invalid token response from Halo Connect'')"
  by (auto simp: fetch_token_def session_send_def emit_def raise_for_status_def)

lemma fetch_token_auth_failure:
  assumes rep: "object_reply (reply_to w (length (sent w))) (utcnow_at w (clock_reads w))"
  shows "(auth_failure (reply_to w (length (sent w))) \<longrightarrow>
            (\<exists>m. fst (fetch_token cfg w) = Inl (PyExc HaloAuthError m)))
       \<and> (\<not> auth_failure (reply_to w (length (sent w))) \<longrightarrow>
            (\<exists>s. fst (fetch_token cfg w) = Inr s))"
proof (cases "reply_to w (length (sent w))")
  case (TransportFailure m)
  then show ?thesis by (simp add: auth_failure_def fetch_token_transport_failure)
next
  case (Received r)
  show ?thesis
  proof (cases "400 \<le> status_code r \<and> status_code r < 600")
    case True
    with Received show ?thesis by (simp add: auth_failure_def fetch_token_error_status)
  next
    case False
    show ?thesis
    proof (cases "body_json r")
      case None
      with Received False show ?thesis by (simp add: auth_failure_def fetch_token_not_json)
    next
      case (Some data)
      with rep Received obtain kvs where kvs: "data = JObject kvs"
        and er: "expiry_representable (dict_get kvs ''expires_in'') (utcnow_at w (clock_reads w))"
        by (cases data) (simp_all add: object_reply_def)
      let ?w2 = "emit DEBUG ''Refreshing Halo Connect OAuth2 token'' [] w
                   \<lparr>sent := sent w @ [token_request cfg]\<rparr>"
      have f: "fetch_token cfg w = store_token (JObject kvs) ?w2"
        using Received False Some kvs by (simp add: fetch_token_decoded)
      have er2: "expiry_representable (dict_get kvs ''expires_in'') (utcnow_at ?w2 (clock_reads ?w2))"
        using er by (simp add: emit_def)
      have af: "auth_failure (reply_to w (length (sent w))) \<longleftrightarrow>
                \<not> truthy (dict_get kvs ''access_token'') \<or> \<not> is_str (dict_get kvs ''access_token'')
                \<or> expires_in_rejected (dict_get kvs ''expires_in'')"
        using Received False Some kvs by (auto simp: auth_failure_def)
      show ?thesis
        unfolding af f
        using store_token_object_rejected[of kvs ?w2] store_token_object_accepted[OF _ _ _ er2]
        by blast
    qed
  qed
qed

text \<open>
  Claim C8, as amended. Let the cached token be absent or stale, and let the body of the
  token response, when it decodes, be a JSON object whose lifetime is representable. Then
  the getter fails with an authentication error exactly when the call gets no response,
  the status is 4xx or 5xx, the body is not JSON, \<^verbatim>\<open>access_token\<close> is missing, falsy or not a
  string, or \<^verbatim>\<open>expires_in\<close> is truthy and \<^verbatim>\<open>int(expires_in)\<close> raises \<^verbatim>\<open>TypeError\<close> or
  \<^verbatim>\<open>ValueError\<close>; in every other case it returns a token, so no other kind of error is raised.
  Bodies that decode to something else than an object, and lifetimes outside the range of
  \<^verbatim>\<open>timedelta\<close> and \<^verbatim>\<open>datetime\<close>, are left out of the statement.
\<close>

theorem get_access_token_auth_error_iff:
  assumes "stale cfg w"
    and "object_reply (reply_to w (length (sent w))) (utcnow_at w (refresh_reading w))"
  shows "(auth_failure (reply_to w (length (sent w))) \<longrightarrow>
            (\<exists>m. fst (get_access_token cfg w) = Inl (PyExc HaloAuthError m)))
       \<and> (\<not> auth_failure (reply_to w (length (sent w))) \<longrightarrow>
            (\<exists>s. fst (get_access_token cfg w) = Inr s))"
  using assms fetch_token_auth_failure[of "after_checks w" cfg]
  by (simp add: get_access_token_stale after_checks_def)

text \<open>Witness for C8: a transport failure gives the authentication error, a well-formed
  response gives the token.\<close>

theorem get_access_token_auth_error_iff_witness:
  "stale example_config (example_world (TransportFailure ''timed out'') None)
   \<and> object_reply (TransportFailure ''timed out'') 63900000000000000
   \<and> auth_failure (TransportFailure ''timed out'')
   \<and> fst (get_access_token example_config (example_world (TransportFailure ''timed out'') None)) =
       Inl (PyExc HaloAuthError ''Failed to obtain Halo Connect token'')
   \<and> stale example_config (example_world reply_hour None)
   \<and> object_reply reply_hour 63900000000000000
   \<and> \<not> auth_failure reply_hour
   \<and> fst (get_access_token example_config (example_world reply_hour None)) = Inr ''tok''"
  using get_access_token_auth_error_iff
          [of example_config "example_world (TransportFailure ''timed out'') None"]
        get_access_token_auth_error_iff [of example_config "example_world reply_hour None"]
  by (simp add: client_defs example_defs stale_def refresh_reading_def object_reply_def
        auth_failure_def expiry_representable_def expires_in_rejected_def)

text \<open>
  Counterexample to C8 as stated: in \<^verbatim>\<open>{"access_token": "tok", "expires_in": ""}\<close> the field
  \<^verbatim>\<open>expires_in\<close> is present and \<^verbatim>\<open>int("")\<close> raises \<^verbatim>\<open>ValueError\<close>, yet the getter raises nothing
  and returns the token.
\<close>

theorem blank_expires_in_counterexample:
  "py_get (JObject [(''access_token'', JString ''tok''), (''expires_in'', JString [])]) ''expires_in''
     = Inr (JString [])
   \<and> py_int (JString []) = Inl (PyExc ValueError ''invalid literal for int() with base 10'')
   \<and> stale example_config (example_world reply_blank None)
   \<and> fst (get_access_token example_config (example_world reply_blank None)) = Inr ''tok''"
  by (simp add: client_defs example_defs stale_def int_of_str_def py_strip_def)


subsection \<open>Requests\<close>

lemma request_transport_failure:
  assumes "path \<noteq> []" and "get_access_token cfg w = (Inr tok, w1)"
    and "reply_to w1 (length (sent w1)) = TransportFailure m"
  shows "fst (request cfg method path params payload headers expected w) =
         Inl (PyExc HaloAPIError ''Failed to execute request to Halo Connect'')"
  using assms by (simp add: request_def session_send_def Let_def)

lemma request_unexpected_status:
  assumes "path \<noteq> []" and "get_access_token cfg w = (Inr tok, w1)"
    and "reply_to w1 (length (sent w1)) = Received r" and "status_code r \<notin> set expected"
  shows "request cfg method path params payload headers expected w =
         (Inl (PyExc HaloAPIError
                (''Halo Connect responded with unexpected status '' @
                 str_of_int (status_code r) @ '': '' @ body_text r)),
          log_error_response r (snd (session_send
             \<lparr>req_method = py_upper method,
              req_url = base_url cfg @ ''/'' @ lstrip_slash path, req_form = [],
              req_params = params, req_json = payload,
              req_headers = dict_update
                     [(''Authorization'', ''Bearer '' @ tok), (''Accept'', ''application/json'')]
                     (case headers of None \<Rightarrow> [] | Some h \<Rightarrow> h),
              req_timeout = timeout cfg\<rparr> w1)))"
  using assms by (simp add: request_def session_send_def Let_def)

lemma log_records_session_send: "log_records (snd (session_send rq w)) = log_records w"
  by (simp add: session_send_def)

lemma log_error_response_records:
  "log_records (log_error_response r w) =
   log_records w @
   [\<lparr>level = ERROR, msg = ''Halo Connect error response: status=%s body=%s'',
     args = [ArgInt (status_code r),
             (case body_json r of
                Some parsed \<Rightarrow>
                  if py_in ''json'' (content_type_or_empty r) then ArgVal parsed
                  else ArgStr (take 2048 (body_text r))
              | None \<Rightarrow> ArgStr (take 2048 (body_text r)))]\<rparr>]"
  by (simp add: log_error_response_def emit_def Let_def split: option.splits)

text \<open>
  Claim C5, as amended. When the path is given and the token is obtained, a request whose
  transport fails with no response fails with a \<^verbatim>\<open>HaloAPIError\<close>, the same kind of error as
  the one raised for a response with an unexpected status; the two differ in their
  message (\<^verbatim>\<open>Failed to execute request to Halo Connect\<close> against
  \<^verbatim>\<open>Halo Connect responded with unexpected status ...\<close>).
\<close>

theorem request_failures_share_kind:
  assumes "path \<noteq> []" and "get_access_token cfg w = (Inr tok, w1)"
  shows "(reply_to w1 (length (sent w1)) = TransportFailure m \<longrightarrow>
            fst (request cfg method path params payload headers expected w) =
              Inl (PyExc HaloAPIError ''Failed to execute request to Halo Connect''))
       \<and> (reply_to w1 (length (sent w1)) = Received r \<and> status_code r \<notin> set expected \<longrightarrow>
            fst (request cfg method path params payload headers expected w) =
              Inl (PyExc HaloAPIError
                    (''Halo Connect responded with unexpected status '' @
                     str_of_int (status_code r) @ '': '' @ body_text r))
            \<and> ''Halo Connect responded with unexpected status '' @
                 str_of_int (status_code r) @ '': '' @ body_text r
               \<noteq> ''Failed to execute request to Halo Connect'')"
  using assms
  by (auto simp: request_transport_failure request_unexpected_status)

text \<open>Witness for C5: a refused connection and a 404 response, each with a valid cached
  token.\<close>

theorem request_failures_share_kind_witness:
  "get_access_token example_config (example_world (TransportFailure ''connection refused'') (Some fresh_token))
     = (Inr ''cached'', (example_world (TransportFailure ''connection refused'') (Some fresh_token))\<lparr>clock_reads := 1\<rparr>)
   \<and> fst (request example_config ''GET'' ''Patient/1'' None None None [200]
            (example_world (TransportFailure ''connection refused'') (Some fresh_token))) =
       Inl (PyExc HaloAPIError ''Failed to execute request to Halo Connect'')
   \<and> get_access_token example_config (example_world reply_not_found (Some fresh_token))
     = (Inr ''cached'', (example_world reply_not_found (Some fresh_token))\<lparr>clock_reads := 1\<rparr>)
   \<and> fst (request example_config ''GET'' ''Patient/1'' None None None [200]
            (example_world reply_not_found (Some fresh_token))) =
       Inl (PyExc HaloAPIError ''Halo Connect responded with unexpected status 404: Not Found'')"
  using request_failures_share_kind
          [of "''Patient/1''" example_config
              "example_world (TransportFailure ''connection refused'') (Some fresh_token)" "''cached''"
              "(example_world (TransportFailure ''connection refused'') (Some fresh_token))\<lparr>clock_reads := 1\<rparr>"
              "''connection refused''" "''GET''" None None None "[200]"]
        request_failures_share_kind
          [of "''Patient/1''" example_config
              "example_world reply_not_found (Some fresh_token)" "''cached''"
              "(example_world reply_not_found (Some fresh_token))\<lparr>clock_reads := 1\<rparr>"
              _ "''GET''" None None None "[200]"
              "\<lparr>status_code = 404, content_type = Some ''text/plain'',
               body_text = ''Not Found'', body_json = None\<rparr>"]
  by (simp add: client_defs example_defs str_of_int_def str_of_nat.simps digit_char_def)

text \<open>
  Counterexample to C5 as stated: the error raised when the connection is refused and the
  error raised for a 404 response are both of class \<^verbatim>\<open>HaloAPIError\<close>; the code has no
  separate network error.
\<close>

theorem network_failure_kind_counterexample:
  "fst (request example_config ''GET'' ''Patient/1'' None None None [200]
          (example_world (TransportFailure ''connection refused'') (Some fresh_token))) =
     Inl (PyExc HaloAPIError ''Failed to execute request to Halo Connect'')
   \<and> fst (request example_config ''GET'' ''Patient/1'' None None None [200]
          (example_world reply_not_found (Some fresh_token))) =
     Inl (PyExc HaloAPIError ''Halo Connect responded with unexpected status 404: Not Found'')
   \<and> exc_class (PyExc HaloAPIError ''Failed to execute request to Halo Connect'') =
     exc_class (PyExc HaloAPIError ''Halo Connect responded with unexpected status 404: Not Found'')"
  by (simp add: client_defs example_defs str_of_int_def str_of_nat.simps digit_char_def)

text \<open>
  Claim C7, as amended. For a response whose status is not among the expected ones, exactly
  one record is logged, at error level, holding the status code and the body: the first
  2048 characters of the body text when the \<^verbatim>\<open>Content-Type\<close> does not contain \<^verbatim>\<open>json\<close> or the
  body does not decode, and the whole decoded body otherwise.
\<close>

theorem unexpected_status_logging:
  assumes "path \<noteq> []" and "get_access_token cfg w = (Inr tok, w1)"
    and "reply_to w1 (length (sent w1)) = Received r" and "status_code r \<notin> set expected"
  shows "log_records (snd (request cfg method path params payload headers expected w)) =
           log_records w1 @
           [\<lparr>level = ERROR, msg = ''Halo Connect error response: status=%s body=%s'',
             args = [ArgInt (status_code r),
                     (case body_json r of
                        Some parsed \<Rightarrow>
                          if py_in ''json'' (content_type_or_empty r) then ArgVal parsed
                          else ArgStr (take 2048 (body_text r))
                      | None \<Rightarrow> ArgStr (take 2048 (body_text r)))]\<rparr>]
       \<and> length (take 2048 (body_text r)) \<le> 2048"
  using assms
  by (simp add: request_unexpected_status log_error_response_records log_records_session_send)

text \<open>Witness for C7: a 404 response of type \<^verbatim>\<open>text/plain\<close>.\<close>

theorem unexpected_status_logging_witness:
  "log_records (snd (request example_config ''GET'' ''Patient/1'' None None None [200]
            (example_world reply_not_found (Some fresh_token)))) =
     [\<lparr>level = ERROR, msg = ''Halo Connect error response: status=%s body=%s'',
       args = [ArgInt 404, ArgStr ''Not Found'']\<rparr>]"
  using unexpected_status_logging
          [of "''Patient/1''" example_config
              "example_world reply_not_found (Some fresh_token)" "''cached''"
              "(example_world reply_not_found (Some fresh_token))\<lparr>clock_reads := 1\<rparr>"
              "\<lparr>status_code = 404, content_type = Some ''text/plain'',
               body_text = ''Not Found'', body_json = None\<rparr>" "[200]"
              "''GET''" None None None]
  by (simp add: client_defs example_defs)

text \<open>
  Counterexample to C7 as stated: for a 500 response of type \<^verbatim>\<open>application/json\<close> whose body
  holds a string of 5000 characters, the logged record holds the whole decoded body, more
  than the 2048 characters that bound the other branch.
\<close>

theorem json_body_logged_whole_counterexample:
  "log_records (snd (request example_config ''GET'' ''Patient/1'' None None None [200]
            (example_world reply_big_json (Some fresh_token)))) =
     [\<lparr>level = ERROR, msg = ''Halo Connect error response: status=%s body=%s'',
       args = [ArgInt 500, ArgVal (JObject [(''detail'', JString (replicate 5000 (CHR ''x'')))])]\<rparr>]
   \<and> 2048 < length (replicate 5000 (CHR ''x''))"
  by (simp add: client_defs example_defs)

subsection \<open>Scheduling\<close>

lemmas orchestrator_defs =
  utc_now_def datetime_now_def format_timestamp_def str_replace_def read_history_def
  log_entry_def logger_log_def date_of_def time_of_def combine_def schedule_next_def
  mark_executed_def new_task_def execute_with_logging_def add_daily_task_def attempt_def
  poll_cycle_def run_scheduler_def main_def exit_status_def us_per_day_def py_strip_def
  py_isspace_def

lemmas orchestrator_example_defs =
  example_loads_def pad2_def example_isoformat_def example_host_def eight_o_clock_def
  nine_o_clock_def one_past_nine_def boom_task_def fine_task_def digit_char_def

lemma schedule_next_eq:
  "schedule_next task w =
     (task\<lparr>next_run := next_occurrence (now_at w (host_reads w)) (time_of_day task)\<rparr>,
      w\<lparr>host_reads := Suc (host_reads w)\<rparr>)"
  by (simp add: schedule_next_def datetime_now_def next_occurrence_def combine_def
        algebra_simps)

lemma log_reads:
  "host_reads (snd (logger_log nm st stime m d w)) = Suc (host_reads w)"
  "now_at (snd (logger_log nm st stime m d w)) = now_at w"
  by (simp_all add: logger_log_def utc_now_def split: sum.splits prod.splits)

lemma execute_with_logging_reads:
  "host_reads (snd (execute_with_logging nm act w)) = host_reads w + 2"
  "now_at (snd (execute_with_logging nm act w)) = now_at w"
  by (auto simp: execute_with_logging_def logger_log_def utc_now_def Let_def
           split: outcome.splits sum.splits)

lemma attempt_task:
  "fst (snd (attempt task w)) = rescheduled task w"
proof -
  obtain res w1 where e: "execute_with_logging (name task) (action task) w = (res, w1)"
    by (cases "execute_with_logging (name task) (action task) w")
  have "host_reads w1 = host_reads w + 2" "now_at w1 = now_at w"
    using execute_with_logging_reads[of "name task" "action task" w] e by simp_all
  then show ?thesis
    by (simp add: attempt_def e mark_executed_def schedule_next_eq rescheduled_def marked_at_def)
qed

lemma split_datetime:
  "t = combine (date_of t) (time_of t)" "0 \<le> time_of t" "time_of t < us_per_day"
  by (simp_all add: combine_def date_of_def time_of_def us_per_day_def)

lemma combine_le_iff:
  "combine (date_of now) tod \<le> now \<longleftrightarrow> tod \<le> time_of now"
proof -
  define base where "base = date_of now * us_per_day"
  have "now = base + time_of now"
    using split_datetime(1)[of now] by (simp add: base_def combine_def)
  then have "base + tod \<le> now \<longleftrightarrow> tod \<le> time_of now" by linarith
  then show ?thesis by (simp add: combine_def base_def)
qed

lemma next_occurrence_future:
  assumes "0 \<le> tod" "tod < us_per_day"
  shows "now < next_occurrence now tod"
proof -
  define base where "base = date_of now * us_per_day"
  have n: "now = base + time_of now" "time_of now < us_per_day"
    using split_datetime[of now] by (simp_all add: base_def combine_def)
  have c: "combine (date_of now) tod = base + tod"
    "combine (date_of now + 1) tod = base + us_per_day + tod"
    by (simp_all add: combine_def base_def algebra_simps)
  show ?thesis
    unfolding next_occurrence_def c using n assms by (cases "base + tod \<le> now") simp_all
qed

lemma time_of_combine:
  assumes "0 \<le> tod" "tod < us_per_day"
  shows "time_of (combine d tod) = tod"
  using assms by (simp add: time_of_def combine_def)

lemma next_occurrence_time:
  assumes "0 \<le> tod" "tod < us_per_day"
  shows "time_of (next_occurrence now tod) = tod"
  using assms by (simp add: next_occurrence_def time_of_combine)

lemma date_of_combine:
  assumes "0 \<le> tod" "tod < us_per_day"
  shows "date_of (combine d tod) = d"
  using assms by (simp add: date_of_def combine_def us_per_day_def)

lemma next_occurrence_least:
  assumes tod: "0 \<le> tod" "tod < us_per_day" and t: "now < t" "time_of t = tod"
  shows "next_occurrence now tod \<le> t"
proof -
  have t_eq: "t = combine (date_of t) tod"
    using split_datetime(1)[of t] t by simp
  have now_eq: "now = combine (date_of now) (time_of now)"
    by (rule split_datetime)
  have days: "date_of now \<le> date_of t"
    using t(1) by (simp add: date_of_def us_per_day_def zdiv_mono1)
  show ?thesis
  proof (cases "combine (date_of now) tod \<le> now")
    case True
    have "date_of now \<noteq> date_of t"
    proof
      assume "date_of now = date_of t"
      with t_eq True t(1) show False by simp
    qed
    with days have "date_of now + 1 \<le> date_of t" by simp
    then have "(date_of now + 1) * us_per_day \<le> date_of t * us_per_day"
      by (simp add: us_per_day_def)
    then have "combine (date_of now + 1) tod \<le> combine (date_of t) tod"
      by (simp add: combine_def)
    with True t_eq show ?thesis by (simp add: next_occurrence_def)
  next
    case False
    from days have "date_of now * us_per_day \<le> date_of t * us_per_day"
      by (simp add: us_per_day_def)
    then have "combine (date_of now) tod \<le> combine (date_of t) tod"
      by (simp add: combine_def)
    with False t_eq show ?thesis by (simp add: next_occurrence_def)
  qed
qed

lemma next_occurrence_day:
  assumes "0 \<le> tod" "tod < us_per_day"
  shows "date_of (next_occurrence now tod) =
         (if tod \<le> time_of now then date_of now + 1 else date_of now)"
  using assms by (simp add: next_occurrence_def date_of_combine combine_le_iff)


text \<open>
  Claim C3. A task registered with \<open>add_daily_task\<close> gets as \<open>next_run\<close> the next occurrence
  of its time of day after the reading of the clock, and so does a task after every
  attempt to execute it, whatever the outcome of its action. The next occurrence is
  tomorrow at that time when today's occurrence has passed or is now, and today at that
  time otherwise; it has that time of day, lies strictly after now, and no instant with
  that time of day lies between now and it.
\<close>

theorem next_run_is_next_occurrence:
  assumes "0 \<le> tod" and "tod < us_per_day"
  shows "fst (add_daily_task nm tod act tasks w) =
           tasks @ [\<lparr>name = nm, time_of_day = tod, action = act,
                     next_run = next_occurrence (now_at w (host_reads w)) tod\<rparr>]
       \<and> fst (snd (attempt task w)) =
           task\<lparr>next_run := next_occurrence (marked_at w) (time_of_day task)\<rparr>
       \<and> now < next_occurrence now tod
       \<and> time_of (next_occurrence now tod) = tod
       \<and> (combine (date_of now) tod \<le> now \<longrightarrow>
            next_occurrence now tod = combine (date_of now + 1) tod)
       \<and> (now < combine (date_of now) tod \<longrightarrow>
            next_occurrence now tod = combine (date_of now) tod)
       \<and> (\<forall>t. now < t \<and> time_of t = tod \<longrightarrow> next_occurrence now tod \<le> t)"
proof (intro conjI allI impI)
  show "fst (add_daily_task nm tod act tasks w) =
           tasks @ [\<lparr>name = nm, time_of_day = tod, action = act,
                     next_run = next_occurrence (now_at w (host_reads w)) tod\<rparr>]"
    by (simp add: add_daily_task_def new_task_def schedule_next_eq)
  show "fst (snd (attempt task w)) =
          task\<lparr>next_run := next_occurrence (marked_at w) (time_of_day task)\<rparr>"
    by (simp add: attempt_task rescheduled_def)
  show "now < next_occurrence now tod"
    using assms(1,2) by (rule next_occurrence_future)
  show "time_of (next_occurrence now tod) = tod"
    using assms(1,2) by (rule next_occurrence_time)
  show "next_occurrence now tod = combine (date_of now + 1) tod"
    if "combine (date_of now) tod \<le> now"
    using that by (simp add: next_occurrence_def)
  show "next_occurrence now tod = combine (date_of now) tod"
    if "now < combine (date_of now) tod"
    using that by (simp add: next_occurrence_def)
  show "next_occurrence now tod \<le> t" if "now < t \<and> time_of t = tod" for t
    using assms(1,2) that by (simp add: next_occurrence_least)
qed

text \<open>Witness for C3: at 09:00:00 a task for 08:59 is set for tomorrow and a task for 09:01
  for today; a task for 09:00 attempted at 09:01 is set for 09:00 tomorrow.\<close>

theorem next_run_is_next_occurrence_witness:
  "fst (add_daily_task ''recalls'' 32340000000 (Returns JNull) [] (example_host nine_o_clock None)) =
     [\<lparr>name = ''recalls'', time_of_day = 32340000000, action = Returns JNull,
       next_run = nine_o_clock + us_per_day - 60000000\<rparr>]
   \<and> fst (add_daily_task ''recalls'' 32460000000 (Returns JNull) [] (example_host nine_o_clock None)) =
     [\<lparr>name = ''recalls'', time_of_day = 32460000000, action = Returns JNull,
       next_run = nine_o_clock + 60000000\<rparr>]
   \<and> fst (snd (attempt (boom_task nine_o_clock) (example_host one_past_nine None))) =
       boom_task (nine_o_clock + us_per_day)
   \<and> one_past_nine < next_occurrence one_past_nine 32400000000"
proof -
  have early: "(0::int) \<le> 32340000000" "32340000000 < us_per_day"
    and late: "(0::int) \<le> 32460000000" "32460000000 < us_per_day"
    and nine: "(0::int) \<le> 32400000000" "32400000000 < us_per_day"
    by (simp_all add: us_per_day_def)
  have occ: "next_occurrence nine_o_clock 32340000000 = nine_o_clock + us_per_day - 60000000"
    "next_occurrence nine_o_clock 32460000000 = nine_o_clock + 60000000"
    "next_occurrence (one_past_nine + 2000000) 32400000000 = nine_o_clock + us_per_day"
    by (simp_all add: next_occurrence_def combine_def date_of_def us_per_day_def
          nine_o_clock_def one_past_nine_def)
  have a: "fst (add_daily_task ''recalls'' 32340000000 (Returns JNull) []
                 (example_host nine_o_clock None)) =
     [\<lparr>name = ''recalls'', time_of_day = 32340000000, action = Returns JNull,
       next_run = nine_o_clock + us_per_day - 60000000\<rparr>]"
    using next_run_is_next_occurrence [OF early, THEN conjunct1,
            of "''recalls''" "Returns JNull" "[]" "example_host nine_o_clock None"]
    by (simp add: example_host_def occ)
  have b: "fst (add_daily_task ''recalls'' 32460000000 (Returns JNull) []
                 (example_host nine_o_clock None)) =
     [\<lparr>name = ''recalls'', time_of_day = 32460000000, action = Returns JNull,
       next_run = nine_o_clock + 60000000\<rparr>]"
    using next_run_is_next_occurrence [OF late, THEN conjunct1,
            of "''recalls''" "Returns JNull" "[]" "example_host nine_o_clock None"]
    by (simp add: example_host_def occ)
  have c: "fst (snd (attempt (boom_task nine_o_clock) (example_host one_past_nine None))) =
       boom_task (nine_o_clock + us_per_day)"
    using next_run_is_next_occurrence [OF nine, THEN conjunct2, THEN conjunct1,
            of "boom_task nine_o_clock" "example_host one_past_nine None"]
    by (simp add: example_host_def marked_at_def boom_task_def occ)
  have d: "one_past_nine < next_occurrence one_past_nine 32400000000"
    using next_run_is_next_occurrence [OF nine, THEN conjunct2, THEN conjunct2, THEN conjunct1,
            of one_past_nine] .
  show ?thesis by (intro conjI a b c d)
qed


subsection \<open>The poll loop\<close>

lemma read_history_reads [simp]:
  "read_history (w\<lparr>host_reads := n\<rparr>) = read_history w"
  by (simp add: read_history_def Let_def split: option.splits file_text.splits)

lemma read_history_dumped [simp]:
  "read_history (w\<lparr>log_file := Some (Dumped (JArray es))\<rparr>) = Inr es"
  by (simp add: read_history_def)

lemma logger_log_readable:
  assumes "read_history w = Inr h"
  shows "logger_log nm st stime m d w =
     (None, w\<lparr>host_reads := Suc (host_reads w),
              log_file := Some (Dumped (JArray (h @ [JObject
                (log_entry (isoformat w) nm st
                   (case stime of None \<Rightarrow> utc_now_at w (host_reads w) | Some t \<Rightarrow> t)
                   (utc_now_at w (host_reads w)) m d)])))\<rparr>)"
  using assms by (simp add: logger_log_def utc_now_def)

lemma logger_log_unreadable:
  assumes "read_history w = Inl e"
  shows "logger_log nm st stime m d w = (Some e, w\<lparr>host_reads := Suc (host_reads w)\<rparr>)"
  using assms by (simp add: logger_log_def utc_now_def)

lemma read_history_error_class:
  "read_history w = Inl e \<Longrightarrow> exc_class e = ValueError"
  by (auto simp: read_history_def Let_def split: option.splits file_text.splits json.splits
        sum.splits if_splits)

lemma attempt_caught:
  assumes "action t = Raises exc" and "is_Exception (exc_class exc)"
  shows "fst (attempt t w) = None"
proof (cases "read_history w")
  case (Inl e)
  then have "is_Exception (exc_class e)" by (simp add: read_history_error_class)
  with Inl assms show ?thesis
    by (simp add: attempt_def execute_with_logging_def utc_now_def logger_log_unreadable
          split: prod.splits)
next
  case (Inr h)
  with assms show ?thesis
    by (simp add: attempt_def execute_with_logging_def utc_now_def logger_log_readable
          split: prod.splits)
qed

lemma attempt_host_failed:
  assumes "action t = Raises exc" and "is_Exception (exc_class exc)" and "read_history w = Inr h"
  shows "snd (snd (attempt t w)) =
     w\<lparr>host_reads := host_reads w + 3,
       log_file := Some (Dumped (JArray (h @ [JObject (failed_entry t exc w)])))\<rparr>"
  using assms
  by (simp add: attempt_def execute_with_logging_def utc_now_def logger_log_readable
        mark_executed_def schedule_next_eq failed_entry_def split: prod.splits)

lemma run_due_due:
  assumes "next_run t \<le> now" and "fst (attempt t w) = None"
  shows "run_due now (t # rest) w =
     (case run_due now rest (snd (snd (attempt t w))) of
        (r, rest', w2) \<Rightarrow> (r, fst (snd (attempt t w)) # rest', w2))"
  using assms by (cases "attempt t w") (auto split: prod.splits)

text \<open>
  Claim C2, as amended. Let a task be due and let its action raise an \<^verbatim>\<open>Exception\<close>. The
  exception does not get past the body of the loop, and the loop goes on with the tasks
  that follow in the same cycle. The task's \<open>next_run\<close> becomes the next occurrence of its
  time of day after the attempt: it lies after the reading of the clock taken by
  \<open>mark_executed\<close>, so the task is not due again in this cycle, and it falls on the next
  calendar day whenever the attempt ends at or after the task's time of day. If the log
  file is readable, exactly one entry is appended to it, with the task's name, the status
  \<^verbatim>\<open>failed\<close> and, when the exception's message is not empty, that message.
\<close>

theorem failing_task_logged_and_rescheduled:
  assumes due: "next_run t \<le> now"
    and raises: "action t = Raises exc" "is_Exception (exc_class exc)"
    and tod: "0 \<le> time_of_day t" "time_of_day t < us_per_day"
  shows "fst (attempt t w) = None
     \<and> run_due now (t # rest) w =
         (case run_due now rest (snd (snd (attempt t w))) of
            (r, rest', w2) \<Rightarrow> (r, rescheduled t w # rest', w2))
     \<and> fst (snd (attempt t w)) = rescheduled t w
     \<and> marked_at w < next_run (rescheduled t w)
     \<and> (now \<le> marked_at w \<longrightarrow> \<not> next_run (rescheduled t w) \<le> now)
     \<and> (time_of_day t \<le> time_of (marked_at w) \<longrightarrow>
           date_of (next_run (rescheduled t w)) = date_of (marked_at w) + 1)
     \<and> (read_history w = Inr h \<longrightarrow>
           read_history (snd (snd (attempt t w))) = Inr (h @ [JObject (failed_entry t exc w)]))
     \<and> field (JObject (failed_entry t exc w)) ''task'' = Some (JString (name t))
     \<and> field (JObject (failed_entry t exc w)) ''status'' = Some (JString ''failed'')
     \<and> (exc_msg exc \<noteq> [] \<longrightarrow>
           field (JObject (failed_entry t exc w)) ''message'' = Some (JString (exc_msg exc)))"
proof (intro conjI impI)
  show caught: "fst (attempt t w) = None"
    using raises by (rule attempt_caught)
  show "run_due now (t # rest) w =
         (case run_due now rest (snd (snd (attempt t w))) of
            (r, rest', w2) \<Rightarrow> (r, rescheduled t w # rest', w2))"
    using run_due_due[OF due caught] by (simp add: attempt_task)
  show "fst (snd (attempt t w)) = rescheduled t w"
    by (rule attempt_task)
  show future: "marked_at w < next_run (rescheduled t w)"
    using tod by (simp add: rescheduled_def next_occurrence_future)
  show "\<not> next_run (rescheduled t w) \<le> now" if "now \<le> marked_at w"
    using that future by simp
  show "date_of (next_run (rescheduled t w)) = date_of (marked_at w) + 1"
    if "time_of_day t \<le> time_of (marked_at w)"
    using that tod by (simp add: rescheduled_def next_occurrence_day)
  show "read_history (snd (snd (attempt t w))) = Inr (h @ [JObject (failed_entry t exc w)])"
    if "read_history w = Inr h"
    using attempt_host_failed[OF raises that] by simp
  show "field (JObject (failed_entry t exc w)) ''task'' = Some (JString (name t))"
    by (simp add: failed_entry_def log_entry_def)
  show "field (JObject (failed_entry t exc w)) ''status'' = Some (JString ''failed'')"
    by (simp add: failed_entry_def log_entry_def)
  show "field (JObject (failed_entry t exc w)) ''message'' = Some (JString (exc_msg exc))"
    if "exc_msg exc \<noteq> []"
    using that by (simp add: failed_entry_def log_entry_def)
qed

text \<open>Witness for C2: at 09:01 a task due since 09:00 raises \<^verbatim>\<open>ValueError("boom")\<close>; the failure
  is logged, the task is set for tomorrow, and the task after it runs and logs its success.\<close>

theorem failing_task_logged_and_rescheduled_witness:
  "next_run (boom_task nine_o_clock) \<le> one_past_nine
   \<and> action (boom_task nine_o_clock) = Raises (PyExc ValueError ''boom'')
   \<and> read_history (example_host one_past_nine None) = Inr []
   \<and> fst (attempt (boom_task nine_o_clock) (example_host one_past_nine None)) = None
   \<and> read_history (snd (snd (attempt (boom_task nine_o_clock) (example_host one_past_nine None)))) =
       Inr [JObject [(''task'', JString ''daily_recalls''), (''status'', JString ''failed''),
                     (''started_at'', JString ''2025-06-02T09:01:00Z''),
                     (''completed_at'', JString ''2025-06-02T09:01:01Z''),
                     (''message'', JString ''boom'')]]
   \<and> fst (snd (attempt (boom_task nine_o_clock) (example_host one_past_nine None))) =
       boom_task (nine_o_clock + us_per_day)
   \<and> read_history (snd (snd (run_due one_past_nine [boom_task nine_o_clock, fine_task nine_o_clock]
          (example_host one_past_nine None)))) =
       Inr [JObject [(''task'', JString ''daily_recalls''), (''status'', JString ''failed''),
                     (''started_at'', JString ''2025-06-02T09:01:00Z''),
                     (''completed_at'', JString ''2025-06-02T09:01:01Z''),
                     (''message'', JString ''boom'')],
            JObject [(''task'', JString ''daily_claims''), (''status'', JString ''success''),
                     (''started_at'', JString ''2025-06-02T09:01:03Z''),
                     (''completed_at'', JString ''2025-06-02T09:01:04Z''),
                     (''details'', JObject [(''submitted'', JInt 2)])]]"
proof -
  have due: "next_run (boom_task nine_o_clock) \<le> one_past_nine"
    by (simp add: boom_task_def nine_o_clock_def one_past_nine_def)
  have raises: "action (boom_task nine_o_clock) = Raises (PyExc ValueError ''boom'')"
    "is_Exception (exc_class (PyExc ValueError ''boom''))"
    by (simp_all add: boom_task_def)
  have tod: "0 \<le> time_of_day (boom_task nine_o_clock)"
    "time_of_day (boom_task nine_o_clock) < us_per_day"
    by (simp_all add: boom_task_def us_per_day_def)
  have readable: "read_history (example_host one_past_nine None) = Inr []"
    by (simp add: read_history_def example_host_def)
  note facts = failing_task_logged_and_rescheduled [OF due raises tod,
      where w = "example_host one_past_nine None" and rest = "[fine_task nine_o_clock]"
        and h = "[]"]
  have entry: "failed_entry (boom_task nine_o_clock) (PyExc ValueError ''boom'')
                 (example_host one_past_nine None) =
       [(''task'', JString ''daily_recalls''), (''status'', JString ''failed''),
        (''started_at'', JString ''2025-06-02T09:01:00Z''),
        (''completed_at'', JString ''2025-06-02T09:01:01Z''),
        (''message'', JString ''boom'')]"
    by (simp add: failed_entry_def orchestrator_defs orchestrator_example_defs)
  have moved: "rescheduled (boom_task nine_o_clock) (example_host one_past_nine None) =
       boom_task (nine_o_clock + us_per_day)"
    by (simp add: rescheduled_def marked_at_def next_occurrence_def combine_def date_of_def
          us_per_day_def orchestrator_example_defs)
  have caught: "fst (attempt (boom_task nine_o_clock) (example_host one_past_nine None)) = None"
    using facts by simp
  have logged: "read_history (snd (snd (attempt (boom_task nine_o_clock)
                   (example_host one_past_nine None)))) =
       Inr [JObject [(''task'', JString ''daily_recalls''), (''status'', JString ''failed''),
                     (''started_at'', JString ''2025-06-02T09:01:00Z''),
                     (''completed_at'', JString ''2025-06-02T09:01:01Z''),
                     (''message'', JString ''boom'')]]"
    using facts readable by (simp add: entry)
  have task: "fst (snd (attempt (boom_task nine_o_clock) (example_host one_past_nine None))) =
       boom_task (nine_o_clock + us_per_day)"
    using facts by (simp add: moved)
  have rest: "run_due one_past_nine [boom_task nine_o_clock, fine_task nine_o_clock]
                (example_host one_past_nine None) =
         (case run_due one_past_nine [fine_task nine_o_clock]
                 (snd (snd (attempt (boom_task nine_o_clock) (example_host one_past_nine None)))) of
            (r, rest', w2) \<Rightarrow> (r, boom_task (nine_o_clock + us_per_day) # rest', w2))"
    using facts by (simp add: moved)
  have after: "snd (snd (attempt (boom_task nine_o_clock) (example_host one_past_nine None))) =
      (example_host one_past_nine None)
        \<lparr>host_reads := 3,
         log_file := Some (Dumped (JArray
          [JObject [(''task'', JString ''daily_recalls''), (''status'', JString ''failed''),
                     (''started_at'', JString ''2025-06-02T09:01:00Z''),
                     (''completed_at'', JString ''2025-06-02T09:01:01Z''),
                     (''message'', JString ''boom'')]]))\<rparr>"
    using attempt_host_failed[OF raises readable, unfolded entry]
    by (simp add: example_host_def)
  have both: "read_history (snd (snd (run_due one_past_nine
          [boom_task nine_o_clock, fine_task nine_o_clock] (example_host one_past_nine None)))) =
       Inr [JObject [(''task'', JString ''daily_recalls''), (''status'', JString ''failed''),
                     (''started_at'', JString ''2025-06-02T09:01:00Z''),
                     (''completed_at'', JString ''2025-06-02T09:01:01Z''),
                     (''message'', JString ''boom'')],
            JObject [(''task'', JString ''daily_claims''), (''status'', JString ''success''),
                     (''started_at'', JString ''2025-06-02T09:01:03Z''),
                     (''completed_at'', JString ''2025-06-02T09:01:04Z''),
                     (''details'', JObject [(''submitted'', JInt 2)])]]"
    unfolding rest after
    by (simp add: orchestrator_defs orchestrator_example_defs)
  show ?thesis
    by (intro conjI due raises(1) readable caught logged task both)
qed

text \<open>
  Counterexample to C2 as stated. With a log file holding \<^verbatim>\<open>not json\<close>, the cycle in which the
  task fails ends without an exception and leaves the log file as it was: no entry is
  logged. And a task whose run of yesterday 09:00 was missed, attempted today at 08:00,
  is set for 09:00 of the same day.
\<close>

theorem failing_task_counterexample:
  "action (boom_task nine_o_clock) = Raises (PyExc ValueError ''boom'')
   \<and> next_run (boom_task nine_o_clock) \<le> one_past_nine
   \<and> poll_cycle [boom_task nine_o_clock] (example_host one_past_nine (Some (Raw ''not json''))) =
       (None, [boom_task (nine_o_clock + us_per_day)],
        (example_host one_past_nine (Some (Raw ''not json'')))\<lparr>host_reads := 4\<rparr>)
   \<and> next_run (boom_task (nine_o_clock - us_per_day)) \<le> eight_o_clock
   \<and> fst (snd (poll_cycle [boom_task (nine_o_clock - us_per_day)] (example_host eight_o_clock None))) =
       [boom_task nine_o_clock]
   \<and> date_of (next_run (boom_task nine_o_clock)) = date_of eight_o_clock"
  by (simp add: orchestrator_defs orchestrator_example_defs)


subsection \<open>The task log\<close>

text \<open>
  Claim C4, as amended. When the log file exists and its content, stripped of leading and
  trailing whitespace, is not empty and is either not valid JSON or not a JSON array, a
  call of \<open>logger_log\<close> raises a \<^verbatim>\<open>ValueError\<close> and changes nothing but the count of clock
  readings: the log file keeps its content.
\<close>

theorem corrupt_log_raises_and_keeps_file:
  assumes "log_file w = Some (Raw s)" and "py_strip s \<noteq> []"
    and "(\<exists>m. json_loads w (py_strip s) = Inl m) \<or>
         (\<exists>v. json_loads w (py_strip s) = Inr v \<and> \<not> is_list v)"
  shows "\<exists>m. logger_log task_name status start_time message details w =
           (Some (PyExc ValueError m), w\<lparr>host_reads := Suc (host_reads w)\<rparr>)"
proof -
  have "\<exists>m. read_history w = Inl (PyExc ValueError m)"
    using assms by (cases "json_loads w (py_strip s)") (auto simp: read_history_def split: json.splits)
  then show ?thesis
    by (auto simp: logger_log_unreadable)
qed

text \<open>Witness for C4: a log file holding \<^verbatim>\<open>not json\<close>.\<close>

theorem corrupt_log_raises_and_keeps_file_witness:
  "py_strip ''not json'' \<noteq> []
   \<and> json_loads (example_host nine_o_clock (Some (Raw ''not json''))) (py_strip ''not json'') =
       Inl ''Expecting value''
   \<and> logger_log ''daily_recalls'' ''success'' None None None
         (example_host nine_o_clock (Some (Raw ''not json''))) =
       (Some (PyExc ValueError ''Task log is corrupted and cannot be parsed: Expecting value''),
        (example_host nine_o_clock (Some (Raw ''not json'')))\<lparr>host_reads := 1\<rparr>)
   \<and> log_file (snd (logger_log ''daily_recalls'' ''success'' None None None
         (example_host nine_o_clock (Some (Raw ''not json''))))) = Some (Raw ''not json'')"
proof -
  have a: "log_file (example_host nine_o_clock (Some (Raw ''not json''))) = Some (Raw ''not json'')"
    by (simp add: example_host_def)
  have b: "py_strip ''not json'' \<noteq> []"
    by (simp add: py_strip_def py_isspace_def)
  have c: "json_loads (example_host nine_o_clock (Some (Raw ''not json''))) (py_strip ''not json'') =
       Inl ''Expecting value''"
    by (simp add: example_host_def example_loads_def py_strip_def py_isspace_def)
  from c have c': "(\<exists>m. json_loads (example_host nine_o_clock (Some (Raw ''not json'')))
                      (py_strip ''not json'') = Inl m) \<or>
         (\<exists>v. json_loads (example_host nine_o_clock (Some (Raw ''not json'')))
                      (py_strip ''not json'') = Inr v \<and> \<not> is_list v)"
    by simp
  from corrupt_log_raises_and_keeps_file [OF a b c', of "''daily_recalls''" "''success''" None None None]
  obtain m where m: "logger_log ''daily_recalls'' ''success'' None None None
         (example_host nine_o_clock (Some (Raw ''not json''))) =
       (Some (PyExc ValueError m),
        (example_host nine_o_clock (Some (Raw ''not json'')))\<lparr>host_reads :=
          Suc (host_reads (example_host nine_o_clock (Some (Raw ''not json''))))\<rparr>)"
    by blast
  have d: "logger_log ''daily_recalls'' ''success'' None None None
         (example_host nine_o_clock (Some (Raw ''not json''))) =
       (Some (PyExc ValueError ''Task log is corrupted and cannot be parsed: Expecting value''),
        (example_host nine_o_clock (Some (Raw ''not json'')))\<lparr>host_reads := 1\<rparr>)"
    by (simp add: orchestrator_defs orchestrator_example_defs)
  have e: "log_file (snd (logger_log ''daily_recalls'' ''success'' None None None
         (example_host nine_o_clock (Some (Raw ''not json''))))) = Some (Raw ''not json'')"
    using m by (simp add: example_host_def)
  show ?thesis by (intro conjI b c d e)
qed

text \<open>
  Counterexample to C4 as stated: a log file holding one space is not empty and is not
  valid JSON, yet the call raises nothing and overwrites the file with an array of one
  entry.
\<close>

theorem blank_log_overwritten_counterexample:
  "'' '' \<noteq> []
   \<and> example_loads '' '' = Inl ''Expecting value''
   \<and> fst (logger_log ''daily_recalls'' ''success'' None None None
         (example_host nine_o_clock (Some (Raw '' '')))) = None
   \<and> log_file (snd (logger_log ''daily_recalls'' ''success'' None None None
         (example_host nine_o_clock (Some (Raw '' ''))))) =
       Some (Dumped (JArray
         [JObject [(''task'', JString ''daily_recalls''), (''status'', JString ''success''),
                   (''started_at'', JString ''2025-06-02T09:00:00Z''),
                   (''completed_at'', JString ''2025-06-02T09:00:00Z'')]]))"
  by (simp add: orchestrator_defs orchestrator_example_defs)


lemma call_entry_reads [simp]:
  "call_entry (w\<lparr>host_reads := n, log_file := f\<rparr>) k c = call_entry w k c"
  by (simp add: call_entry_def split: option.splits)

lemma log_all_appends:
  assumes "read_history w = Inr h"
  shows "fst (log_all calls w) = None \<and>
         read_history (snd (log_all calls w)) =
           Inr (h @ map (\<lambda>(k, c). call_entry w k c) (enumerate (host_reads w) calls))"
  using assms
proof (induction calls arbitrary: w h)
  case Nil
  then show ?case by simp
next
  case (Cons c cs)
  let ?w1 = "w\<lparr>host_reads := Suc (host_reads w),
               log_file := Some (Dumped (JArray (h @ [call_entry w (host_reads w) c])))\<rparr>"
  have step: "logger_log (call_task c) (call_status c) (call_start c) (call_message c)
                (call_details c) w = (None, ?w1)"
    using Cons.prems by (simp add: logger_log_readable call_entry_def)
  have "read_history ?w1 = Inr (h @ [call_entry w (host_reads w) c])"
    by simp
  from Cons.IH[OF this] show ?case
    by (simp add: step)
qed

lemma call_entry_fields:
  "field (call_entry w k c) ''task'' = Some (JString (call_task c))"
  "field (call_entry w k c) ''status'' = Some (JString (call_status c))"
  "field (call_entry w k c) ''message'' =
     (case call_message c of None \<Rightarrow> None | Some m \<Rightarrow> if m = [] then None else Some (JString m))"
  "field (call_entry w k c) ''details'' = map_option JObject (call_details c)"
  by (simp_all add: call_entry_def log_entry_def split: option.splits)

text \<open>
  Claim C9, as amended. For every sequence of calls of \<open>logger_log\<close> made one after the other
  from an absent log file, no call raises, and reading the log file afterwards yields as
  many entries as there were calls, in the order of the calls. The entry of each call has
  the call's task and status; it has the call's message when that is a non-empty string
  and no message field when it is \<^verbatim>\<open>None\<close> or empty; it has the call's details when they are
  given and no details field otherwise.
\<close>

theorem sequential_logs_round_trip:
  assumes "log_file w = None"
  shows "fst (log_all calls w) = None
     \<and> (\<exists>es. read_history (snd (log_all calls w)) = Inr es \<and> length es = length calls \<and>
          (\<forall>i < length calls.
             es ! i = call_entry w (host_reads w + i) (calls ! i) \<and>
             field (es ! i) ''task'' = Some (JString (call_task (calls ! i))) \<and>
             field (es ! i) ''status'' = Some (JString (call_status (calls ! i))) \<and>
             field (es ! i) ''message'' =
               (case call_message (calls ! i) of
                  None \<Rightarrow> None
                | Some m \<Rightarrow> if m = [] then None else Some (JString m)) \<and>
             field (es ! i) ''details'' = map_option JObject (call_details (calls ! i))))"
proof -
  have "read_history w = Inr []"
    using assms by (simp add: read_history_def)
  from log_all_appends[OF this, of calls]
  have none: "fst (log_all calls w) = None"
    and hist: "read_history (snd (log_all calls w)) =
           Inr (map (\<lambda>(k, c). call_entry w k c) (enumerate (host_reads w) calls))"
    by simp_all
  have nth: "map (\<lambda>(k, c). call_entry w k c) (enumerate (host_reads w) calls) ! i =
             call_entry w (host_reads w + i) (calls ! i)" if "i < length calls" for i
    using that by (simp add: nth_enumerate_eq)
  show ?thesis
    using none hist nth by (simp add: call_entry_fields)
qed


end
